theory Spec2Isabelle
  imports Complex_Main "HOL-Library.Word" "HOL-Library.Signed_Division"
begin

section \<open>Go values used by the service\<close>

subsection \<open>Errors\<close>

text \<open>
  A Go \<open>error\<close> is either a fresh message (\<open>fmt.Errorf\<close> without \<open>%w\<close>, or an
  error of a library) or a message wrapped around an earlier error (\<open>fmt.Errorf("...: %w", err)\<close>).
  A \<open>nil\<close> error is \<open>None\<close> of \<open>err option\<close>.
\<close>

datatype err = Error string | Wrap string err

subsection \<open>float64\<close>

text \<open>
  A finite float64 is modelled by the rational number it denotes. An arithmetic operation
  of Go computes the exact result and rounds it to the nearest number with a 53 bit
  significand, ties to the even significand; \<open>f64_round\<close> is that rounding. All numbers
  the service computes with lie between \<open>2\<^sup>-\<^sup>4\<^sup>2\<close> and \<open>2\<^sup>6\<^sup>3\<close> in magnitude (or are zero), far
  inside the range of normal float64 numbers, so the exponent needs no bounds here.
\<close>

definition rne :: "rat \<Rightarrow> int" where
  "rne q = (let f = \<lfloor>q\<rfloor>; r = q - of_int f in
            if r < 1 / 2 then f else if 1 / 2 < r then f + 1
            else if even f then f else f + 1)"

function expo_dn :: "rat \<Rightarrow> int" where
  "expo_dn x = (if 0 < x \<and> x < 2 ^ 52 then expo_dn (2 * x) - 1 else 0)"
  by pat_completeness auto
termination
proof (relation "measure (\<lambda>x. nat \<lfloor>2 ^ 53 / x\<rfloor>)")
  show "wf (measure (\<lambda>x::rat. nat \<lfloor>2 ^ 53 / x\<rfloor>))" by simp
next
  fix x :: rat
  assume a: "0 < x \<and> x < 2 ^ 52"
  define y where "y = 2 ^ 53 / x"
  have y2: "2 < y" using a by (simp add: y_def pos_less_divide_eq)
  have eq: "2 ^ 53 / (2 * x) = y / 2" by (simp add: y_def)
  have "\<lfloor>y / 2\<rfloor> < \<lfloor>y\<rfloor>"
  proof -
    have "y / 2 < of_int \<lfloor>y\<rfloor>"
    proof -
      have "y - 1 < of_int \<lfloor>y\<rfloor>" by linarith
      with y2 show ?thesis by linarith
    qed
    then show ?thesis by (simp add: floor_less_iff)
  qed
  moreover have "0 < \<lfloor>y\<rfloor>" using y2 by linarith
  ultimately have "nat \<lfloor>y / 2\<rfloor> < nat \<lfloor>y\<rfloor>" by linarith
  then show "(2 * x, x) \<in> measure (\<lambda>x. nat \<lfloor>2 ^ 53 / x\<rfloor>)"
    unfolding in_measure eq y_def [symmetric] .
qed

function expo_up :: "rat \<Rightarrow> int" where
  "expo_up x = (if 2 ^ 53 \<le> x then expo_up (x / 2) + 1 else 0)"
  by pat_completeness auto
termination
proof (relation "measure (\<lambda>x. nat \<lfloor>x\<rfloor>)")
  show "wf (measure (\<lambda>x::rat. nat \<lfloor>x\<rfloor>))" by simp
next
  fix x :: rat
  assume a: "2 ^ 53 \<le> x"
  then have x2: "2 < x" by simp
  have "x / 2 < of_int \<lfloor>x\<rfloor>"
  proof -
    have "x - 1 < of_int \<lfloor>x\<rfloor>" by linarith
    with x2 show ?thesis by linarith
  qed
  then have "\<lfloor>x / 2\<rfloor> < \<lfloor>x\<rfloor>" by (simp add: floor_less_iff)
  moreover have "0 < \<lfloor>x\<rfloor>" using x2 by linarith
  ultimately have "nat \<lfloor>x / 2\<rfloor> < nat \<lfloor>x\<rfloor>" by linarith
  then show "(x / 2, x) \<in> measure (\<lambda>x. nat \<lfloor>x\<rfloor>)"
    unfolding in_measure .
qed

declare expo_dn.simps [simp del] expo_up.simps [simp del]

definition f64_exponent :: "rat \<Rightarrow> int" where
  "f64_exponent x = (if \<bar>x\<bar> < 2 ^ 52 then expo_dn \<bar>x\<bar> else expo_up \<bar>x\<bar>)"

definition f64_round :: "rat \<Rightarrow> rat" where
  "f64_round x = (if x = 0 then 0
     else let e = f64_exponent x in of_int (rne (x / 2 powi e)) * 2 powi e)"

text \<open>The conversion \<open>float64(i)\<close> of an integer, and float64 addition and division.\<close>

definition float64 :: "int \<Rightarrow> rat" where
  "float64 i = f64_round (of_int i)"

definition f64_add :: "rat \<Rightarrow> rat \<Rightarrow> rat" where
  "f64_add a b = f64_round (a + b)"

definition f64_div :: "rat \<Rightarrow> rat \<Rightarrow> rat" where
  "f64_div a b = f64_round (a / b)"

subsection \<open>time.Time and time.Duration\<close>

text \<open>
  An instant is the number of nanoseconds since the Unix epoch; a \<open>Duration\<close> is an int64
  count of nanoseconds. \<open>Time.Sub\<close> saturates at the largest and smallest Duration,
  \<open>Duration.Hours\<close> divides with truncation towards zero and adds the two parts as
  float64 numbers:
  \<^verbatim>\<open>hour := d / Hour; nsec := d % Hour; return float64(hour) + float64(nsec)/(60*60*1e9)\<close>
\<close>

type_synonym Time = int
type_synonym Duration = int

definition maxDuration :: Duration where
  "maxDuration = 2 ^ 63 - 1"

definition minDuration :: Duration where
  "minDuration = - (2 ^ 63)"

definition Hour :: Duration where
  "Hour = 3600000000000"

definition After :: "Time \<Rightarrow> Time \<Rightarrow> bool" where
  "After t u = (u < t)"

definition Sub :: "Time \<Rightarrow> Time \<Rightarrow> Duration" where
  "Sub t u = (let d = t - u in
     if maxDuration < d then maxDuration else if d < minDuration then minDuration else d)"

definition Hours :: "Duration \<Rightarrow> rat" where
  "Hours d = (let hour = d sdiv Hour; nsec = d smod Hour in
     f64_add (float64 hour) (f64_div (float64 nsec) 3600000000000))"

subsection \<open>Formatting verbs of fmt\<close>

text \<open>
  \<open>%d\<close> prints a decimal numeral, \<open>%.1f\<close> a float64 rounded to one decimal
  (the exact value, ties to even), \<open>%s\<close> the string itself. Strings are byte lists;
  the emoji of the messages are written as their UTF-8 bytes.
\<close>

definition digitChar :: "nat \<Rightarrow> char" where
  "digitChar d = ''0123456789'' ! d"

function decimal :: "nat \<Rightarrow> string" where
  "decimal n = (if n < 10 then [digitChar n] else decimal (n div 10) @ [digitChar (n mod 10)])"
  by pat_completeness auto
termination
  by (relation "measure id") auto

declare decimal.simps [simp del]

definition fmt_d :: "int \<Rightarrow> string" where
  "fmt_d i = (if i < 0 then CHR ''-'' # decimal (nat (- i)) else decimal (nat i))"

definition fmt_f1 :: "rat \<Rightarrow> string" where
  "fmt_f1 x = (let t = rne (\<bar>x\<bar> * 10) in
     (if x < 0 then ''-'' else []) @ decimal (nat (t div 10)) @ ''.'' @ decimal (nat (t mod 10)))"

definition newline :: char where
  "newline = CHR 0x0A"

definition dquote :: char where
  "dquote = CHR 0x22"

definition emoji_siren :: string where
  "emoji_siren = [CHR 0xF0, CHR 0x9F, CHR 0x9A, CHR 0xA8]"

definition emoji_rocket :: string where
  "emoji_rocket = [CHR 0xF0, CHR 0x9F, CHR 0x9A, CHR 0x80]"

definition emoji_clock :: string where
  "emoji_clock = [CHR 0xE2, CHR 0x8F, CHR 0xB0]"

subsection \<open>fmt.Sscanf(s, "%d", &u) for a uint64\<close>

text \<open>
  The scanner skips leading white space (a newline there is an error), requires at least
  one decimal digit, takes the longest run of digits and converts it with
  \<open>strconv.ParseUint(tok, 10, 64)\<close>, which fails when the number does not fit 64 bits.
  Input after the digits is not looked at. \<open>spaceWidth\<close> is the number of bytes of a
  leading white-space rune other than the newline (the runes of \<open>isSpace\<close> in
  fmt/scan.go, in UTF-8), and 0 when the input starts with anything else. The error
  texts are indicative: the callers only test for failure.
\<close>

fun spaceWidth :: "nat list \<Rightarrow> nat" where
  "spaceWidth [] = 0"
| "spaceWidth (b # bs) =
    (if b = 0x09 \<or> b = 0x0B \<or> b = 0x0C \<or> b = 0x0D \<or> b = 0x20 then 1
     else if b = 0xC2 then
       (case bs of b2 # _ \<Rightarrow> if b2 = 0x85 \<or> b2 = 0xA0 then 2 else 0 | [] \<Rightarrow> 0)
     else if b = 0xE1 then
       (case bs of b2 # b3 # _ \<Rightarrow> if b2 = 0x9A \<and> b3 = 0x80 then 3 else 0 | _ \<Rightarrow> 0)
     else if b = 0xE2 then
       (case bs of b2 # b3 # _ \<Rightarrow>
          if b2 = 0x80 \<and> (0x80 \<le> b3 \<and> b3 \<le> 0x8A \<or> b3 = 0xA8 \<or> b3 = 0xA9 \<or> b3 = 0xAF)
             \<or> b2 = 0x81 \<and> b3 = 0x9F
          then 3 else 0
        | _ \<Rightarrow> 0)
     else if b = 0xE3 then
       (case bs of b2 # b3 # _ \<Rightarrow> if b2 = 0x80 \<and> b3 = 0x80 then 3 else 0 | _ \<Rightarrow> 0)
     else 0)"

function SkipSpace :: "string \<Rightarrow> err + string" where
  "SkipSpace s =
    (if s = [] then Inr []
     else if hd s = newline then Inl (Error ''unexpected newline'')
     else if spaceWidth (map of_char s) = 0 then Inr s
     else SkipSpace (drop (spaceWidth (map of_char s)) s))"
  by pat_completeness auto
termination
  by (relation "measure length") auto

declare SkipSpace.simps [simp del]

definition isDigit :: "char \<Rightarrow> bool" where
  "isDigit c = (48 \<le> (of_char c :: nat) \<and> (of_char c :: nat) \<le> 57)"

definition digitsValue :: "string \<Rightarrow> nat" where
  "digitsValue tok = foldl (\<lambda>acc c. 10 * acc + (of_char c - 48)) 0 tok"

definition Sscanf_d :: "string \<Rightarrow> err + 64 word" where
  "Sscanf_d str =
    (case SkipSpace str of
       Inl e \<Rightarrow> Inl e
     | Inr rest \<Rightarrow>
         if rest = [] then Inl (Error ''unexpected EOF'')
         else let tok = takeWhile isDigit rest in
           if tok = [] then Inl (Error ''expected integer'')
           else if 2 ^ 64 \<le> digitsValue tok then Inl (Error ''value out of range'')
           else Inr (word_of_nat (digitsValue tok)))"

section \<open>Data model (internal/types)\<close>

text \<open>
  The structs of the package as records. Field names are the source's; where two structs
  share a field name the later record prefixes it (\<open>msg\<close> for NotificationMessage,
  \<open>raw\<close> for CosmosProposal, \<open>Telegram\<close>/\<open>Slack\<close> for the two \<open>Enabled\<close> flags).
  \<open>Config.Networks\<close> is a Go map; it is an association list here, whose order stands for
  the unspecified iteration order of the map. The logging settings are read by no
  function of the service and are left out.
\<close>

record Proposal =
  ID :: "64 word"
  Title :: string
  Description :: string
  Status :: string
  VotingStart :: Time
  VotingEnd :: Time
  Network :: string

record NetworkConfig =
  Name :: string
  RestEndpoint :: string
  ChainID :: string

record AlertConfig =
  HoursBeforeStart :: int
  HoursBeforeEnd :: int
  CheckIntervalMinutes :: int
  NotifyOnStartup :: bool

record TelegramConfig =
  TelegramEnabled :: bool
  BotToken :: string
  ChatID :: int

record SlackConfig =
  SlackEnabled :: bool
  WebhookURL :: string

record NotificationConfig =
  Telegram :: TelegramConfig
  Slack :: SlackConfig

record Config =
  Alerts :: AlertConfig
  Networks :: "(string \<times> NetworkConfig) list"
  Notifications :: NotificationConfig

record NotificationMessage =
  msgTitle :: string
  msgContent :: string
  msgNetwork :: string
  msgChainID :: string
  msgProposalID :: "64 word"
  msgExplorerURL :: string

record CosmosProposal =
  rawID :: string
  rawTitle :: string
  rawDescription :: string
  rawStatus :: string
  rawVotingStart :: string
  rawVotingEnd :: string

section \<open>The world outside the process\<close>

text \<open>
  What the service does to the outside is a list of attempted deliveries, in order; what it
  reads from the outside are the answers of the libraries it calls. \<open>env\<close> holds those
  answers: the Telegram client, \<open>http.Post\<close>, the three steps of an HTTP GET
  (\<open>http.NewRequestWithContext\<close>, \<open>Client.Do\<close>, \<open>io.ReadAll\<close>), the JSON decoder,
  \<open>time.Parse(time.RFC3339, _)\<close> and the clock. The answer to a delivery may depend on
  everything delivered before, so a channel can fail once and work the next time.
  \<open>timeNow env k\<close> is what the \<open>k\<close>-th call of \<open>time.Now()\<close> returns. Lines printed to
  standard output are not part of the model.
\<close>

datatype TelegramBot = TelegramBot string

datatype delivery =
    TelegramSend TelegramBot int string
  | SlackPost string string

record http_response =
  StatusCode :: int
  Body :: "err + string"

record env =
  NewBot :: "string \<Rightarrow> err + TelegramBot"
  botSend :: "delivery list \<Rightarrow> TelegramBot \<Rightarrow> int \<Rightarrow> string \<Rightarrow> err option"
  httpPost :: "delivery list \<Rightarrow> string \<Rightarrow> string \<Rightarrow> err + int"
  newRequest :: "string \<Rightarrow> err option"
  clientDo :: "string \<Rightarrow> err + http_response"
  jsonUnmarshal :: "string \<Rightarrow> err + CosmosProposal list"
  timeParse :: "string \<Rightarrow> err + Time"
  timeNow :: "nat \<Rightarrow> Time"

record world =
  deliveries :: "delivery list"
  clockReads :: nat

definition time_Now :: "env \<Rightarrow> world \<Rightarrow> Time \<times> world" where
  "time_Now env w = (timeNow env (clockReads w), w\<lparr>clockReads := Suc (clockReads w)\<rparr>)"

section \<open>Notifications (internal/notifications)\<close>

record Notifier =
  telegram :: "TelegramBot option"
  telegramChatID :: int
  slack :: SlackConfig

definition NewNotifier :: "env \<Rightarrow> NotificationConfig \<Rightarrow> err + Notifier" where
  "NewNotifier env config =
    (if TelegramEnabled (Telegram config) then
       (case NewBot env (BotToken (Telegram config)) of
          Inl err \<Rightarrow> Inl (Wrap ''failed to create Telegram bot'' err)
        | Inr tbot \<Rightarrow>
            Inr \<lparr>telegram = Some tbot, telegramChatID = ChatID (Telegram config),
                 slack = Slack config\<rparr>)
     else Inr \<lparr>telegram = None, telegramChatID = 0, slack = Slack config\<rparr>)"

definition formatTelegramMessage :: "NotificationMessage \<Rightarrow> string" where
  "formatTelegramMessage msg =
    (if msgNetwork msg = ''Governance Alerts'' then
       emoji_rocket @ '' <b>'' @ msgTitle msg @ ''</b>'' @ [newline, newline] @ msgContent msg
     else
       emoji_siren @ '' <b>'' @ msgTitle msg @ ''</b>'' @ [newline, newline]
       @ ''<b>Network:</b> '' @ msgNetwork msg @ [newline]
       @ ''<b>Chain ID:</b> '' @ msgChainID msg @ [newline]
       @ ''<b>Proposal ID:</b> '' @ decimal (unat (msgProposalID msg)) @ [newline, newline]
       @ msgContent msg)"

definition formatSlackMessage :: "NotificationMessage \<Rightarrow> string" where
  "formatSlackMessage msg =
    (if msgNetwork msg = ''Governance Alerts'' then
       emoji_rocket @ '' *'' @ msgTitle msg @ ''*'' @ [newline, newline] @ msgContent msg
     else
       emoji_siren @ '' *'' @ msgTitle msg @ ''*'' @ [newline, newline]
       @ ''*Network:* '' @ msgNetwork msg @ [newline]
       @ ''*Chain ID:* '' @ msgChainID msg @ [newline]
       @ ''*Proposal ID:* '' @ decimal (unat (msgProposalID msg)) @ [newline, newline]
       @ msgContent msg)"

text \<open>
  \<open>sendTelegramNotification\<close> is only called with \<open>n.telegram\<close> set; the model passes
  the bot it points to. \<open>sendSlackNotification\<close> posts the JSON object with the single
  field \<open>text\<close>; marshalling a string cannot fail, so that error branch has no
  counterpart, and the delivery records the text.
\<close>

definition sendTelegramNotification ::
  "env \<Rightarrow> Notifier \<Rightarrow> TelegramBot \<Rightarrow> NotificationMessage \<Rightarrow> world \<Rightarrow> err option \<times> world" where
  "sendTelegramNotification env n tbot msg w =
    (let formattedMsg = formatTelegramMessage msg;
         w' = w\<lparr>deliveries := deliveries w @ [TelegramSend tbot (telegramChatID n) formattedMsg]\<rparr>
     in case botSend env (deliveries w) tbot (telegramChatID n) formattedMsg of
          Some err \<Rightarrow> (Some (Wrap ''failed to send message'' err), w')
        | None \<Rightarrow> (None, w'))"

definition sendSlackNotification ::
  "env \<Rightarrow> Notifier \<Rightarrow> NotificationMessage \<Rightarrow> world \<Rightarrow> err option \<times> world" where
  "sendSlackNotification env n msg w =
    (let text = formatSlackMessage msg;
         w' = w\<lparr>deliveries := deliveries w @ [SlackPost (WebhookURL (slack n)) text]\<rparr>
     in case httpPost env (deliveries w) (WebhookURL (slack n)) text of
          Inl err \<Rightarrow> (Some (Wrap ''failed to send request'' err), w')
        | Inr status \<Rightarrow>
            if status \<noteq> 200
            then (Some (Error (''unexpected status code: '' @ fmt_d status)), w')
            else (None, w'))"

definition SendNotification ::
  "env \<Rightarrow> Notifier \<Rightarrow> NotificationMessage \<Rightarrow> world \<Rightarrow> err option \<times> world" where
  "SendNotification env n msg w =
    (let (errors1, w1) =
           (case telegram n of
              Some tbot \<Rightarrow>
                (case sendTelegramNotification env n tbot msg w of
                   (Some err, w') \<Rightarrow> ([Wrap ''telegram'' err], w')
                 | (None, w') \<Rightarrow> ([], w'))
            | None \<Rightarrow> ([], w));
         (errors2, w2) =
           (if SlackEnabled (slack n) then
              (case sendSlackNotification env n msg w1 of
                 (Some err, w') \<Rightarrow> (errors1 @ [Wrap ''slack'' err], w')
               | (None, w') \<Rightarrow> (errors1, w'))
            else (errors1, w1))
     in (if length errors2 > 0 then Some (errors2 ! 0) else None, w2))"

section \<open>Governance client (internal/governance)\<close>

text \<open>
  The client holds the network's configuration (its \<open>http.Client\<close> only fixes the
  timeout of 15 seconds). The context argument of the methods is not modelled: a cancelled
  context shows as an error answer of \<open>clientDo\<close>.
\<close>

record Client =
  config :: NetworkConfig

definition NewClient :: "NetworkConfig \<Rightarrow> Client" where
  "NewClient cfg = \<lparr>config = cfg\<rparr>"

definition makeRequest :: "env \<Rightarrow> string \<Rightarrow> err + string" where
  "makeRequest env url =
    (case newRequest env url of
       Some err \<Rightarrow> Inl (Wrap ''failed to create request'' err)
     | None \<Rightarrow>
        (case clientDo env url of
           Inl err \<Rightarrow> Inl (Wrap ''failed to make request'' err)
         | Inr resp \<Rightarrow>
             if StatusCode resp \<noteq> 200
             then Inl (Error (''unexpected status code: '' @ fmt_d (StatusCode resp)))
             else (case Body resp of
                     Inl err \<Rightarrow> Inl (Wrap ''failed to read response body'' err)
                   | Inr body \<Rightarrow> Inr body)))"

text \<open>
  The loop of \<open>GetVotingProposals\<close> over \<open>response.Proposals\<close>: \<open>proposals\<close> is the slice
  built so far, every \<open>continue\<close> leaves it as it is.
\<close>

fun votingLoop :: "env \<Rightarrow> Client \<Rightarrow> CosmosProposal list \<Rightarrow> Proposal list \<Rightarrow> Proposal list" where
  "votingLoop env c [] proposals = proposals"
| "votingLoop env c (proposal # rest) proposals =
    votingLoop env c rest
      (if rawStatus proposal = ''PROPOSAL_STATUS_VOTING_PERIOD'' then
         (case timeParse env (rawVotingStart proposal) of
            Inl err \<Rightarrow> proposals
          | Inr votingStart \<Rightarrow>
             (case timeParse env (rawVotingEnd proposal) of
                Inl err \<Rightarrow> proposals
              | Inr votingEnd \<Rightarrow>
                 (let title = (if rawTitle proposal = [] then ''Proposal '' @ rawID proposal
                               else rawTitle proposal);
                      description = (if rawDescription proposal = []
                                     then ''No description available''
                                     else rawDescription proposal)
                  in case Sscanf_d (rawID proposal) of
                       Inl err \<Rightarrow> proposals
                     | Inr proposalID \<Rightarrow>
                         proposals @
                         [\<lparr>ID = proposalID, Title = title, Description = description,
                           Status = rawStatus proposal, VotingStart = votingStart,
                           VotingEnd = votingEnd, Network = Name (config c)\<rparr>])))
       else proposals)"

definition GetVotingProposals :: "env \<Rightarrow> Client \<Rightarrow> err + Proposal list" where
  "GetVotingProposals env c =
    (let apiURL = RestEndpoint (config c) @ ''/cosmos/gov/v1/proposals'' in
     case makeRequest env apiURL of
       Inl err \<Rightarrow> Inl (Wrap ''failed to fetch proposals'' err)
     | Inr body \<Rightarrow>
        (case jsonUnmarshal env body of
           Inl err \<Rightarrow> Inl (Wrap ''failed to parse response'' err)
         | Inr response \<Rightarrow> Inr (votingLoop env c response [])))"

section \<open>The service (internal/service)\<close>

text \<open>
  \<open>stopChan\<close> is a channel nothing is ever sent on: all that matters is whether it has been
  closed. Closing a closed channel panics in Go. \<open>clients\<close> is a Go map, an association list
  here (see \<open>Networks\<close>). The field \<open>config\<close> of the service is \<open>svc_config\<close>, the
  name being taken by the client's field.
\<close>

datatype chan = Open | Closed

datatype panic = Panic string

record Service =
  svc_config :: Config
  notifier :: Notifier
  clients :: "(string \<times> Client) list"
  stopChan :: chan

definition NewService :: "env \<Rightarrow> Config \<Rightarrow> err + Service" where
  "NewService env cfg =
    (case NewNotifier env (Notifications cfg) of
       Inl err \<Rightarrow> Inl (Wrap ''failed to create notifier'' err)
     | Inr n \<Rightarrow>
         Inr \<lparr>svc_config = cfg, notifier = n,
              clients = map (\<lambda>(name, networkConfig). (name, NewClient networkConfig)) (Networks cfg),
              stopChan = Open\<rparr>)"

definition Stop :: "Service \<Rightarrow> panic + Service" where
  "Stop s =
    (case stopChan s of
       Closed \<Rightarrow> Inl (Panic ''close of closed channel'')
     | Open \<Rightarrow> Inr (s\<lparr>stopChan := Closed\<rparr>))"

text \<open>
  The two tests of \<open>checkProposal\<close> and the messages it builds. \<open>hoursUntil\<close> is the
  float64 the code computes: \<open>boundary.Sub(now).Hours()\<close>.
\<close>

definition hoursUntil :: "Time \<Rightarrow> Time \<Rightarrow> rat" where
  "hoursUntil boundary now = Hours (Sub boundary now)"

definition startAlertDue :: "AlertConfig \<Rightarrow> Proposal \<Rightarrow> Time \<Rightarrow> bool" where
  "startAlertDue alerts proposal now =
    (After (VotingStart proposal) now \<and>
     (let hoursUntilStart = hoursUntil (VotingStart proposal) now in
      hoursUntilStart \<le> float64 (HoursBeforeStart alerts) \<and> hoursUntilStart > 0))"

definition endAlertDue :: "AlertConfig \<Rightarrow> Proposal \<Rightarrow> Time \<Rightarrow> bool" where
  "endAlertDue alerts proposal now =
    (After (VotingEnd proposal) now \<and>
     (let hoursUntilEnd = hoursUntil (VotingEnd proposal) now in
      hoursUntilEnd \<le> float64 (HoursBeforeEnd alerts) \<and> hoursUntilEnd > 0))"

definition startMessage :: "Proposal \<Rightarrow> NetworkConfig \<Rightarrow> Time \<Rightarrow> NotificationMessage" where
  "startMessage proposal networkConfig now =
    \<lparr>msgTitle = emoji_siren @ '' Governance Proposal Voting Starting Soon - '' @ Network proposal,
     msgContent = ''Proposal '' @ [dquote] @ Title proposal @ [dquote] @ '' will start voting in ''
        @ fmt_f1 (hoursUntil (VotingStart proposal) now) @ '' hours.'' @ [newline, newline]
        @ ''Description: '' @ Description proposal,
     msgNetwork = Network proposal,
     msgChainID = ChainID networkConfig,
     msgProposalID = ID proposal,
     msgExplorerURL = []\<rparr>"

definition endMessage :: "Proposal \<Rightarrow> NetworkConfig \<Rightarrow> Time \<Rightarrow> NotificationMessage" where
  "endMessage proposal networkConfig now =
    \<lparr>msgTitle = emoji_clock @ '' Governance Proposal Voting Ending Soon - '' @ Network proposal,
     msgContent = ''Proposal '' @ [dquote] @ Title proposal @ [dquote] @ '' will end voting in ''
        @ fmt_f1 (hoursUntil (VotingEnd proposal) now) @ '' hours.'' @ [newline, newline]
        @ ''Description: '' @ Description proposal,
     msgNetwork = Network proposal,
     msgChainID = ChainID networkConfig,
     msgProposalID = ID proposal,
     msgExplorerURL = []\<rparr>"

text \<open>
  \<open>checkProposal\<close> reads the clock once, then runs the start block and the end block. An
  error of the start notification returns from the function before the end block. (The
  client argument of the source is not used by the function and is left out.)
\<close>

definition checkProposal ::
  "env \<Rightarrow> Service \<Rightarrow> Proposal \<Rightarrow> NetworkConfig \<Rightarrow> world \<Rightarrow> err option \<times> world" where
  "checkProposal env s proposal networkConfig w =
    (let (now, w1) = time_Now env w;
         alerts = Alerts (svc_config s)
     in case (if startAlertDue alerts proposal now then
                (case SendNotification env (notifier s) (startMessage proposal networkConfig now) w1 of
                   (Some err, w2) \<Rightarrow> (Some (Wrap ''failed to send start notification'' err), w2)
                 | (None, w2) \<Rightarrow> (None, w2))
              else (None, w1)) of
          (Some err, w2) \<Rightarrow> (Some err, w2)
        | (None, w2) \<Rightarrow>
            (if endAlertDue alerts proposal now then
               (case SendNotification env (notifier s) (endMessage proposal networkConfig now) w2 of
                  (Some err, w3) \<Rightarrow> (Some (Wrap ''failed to send end notification'' err), w3)
                | (None, w3) \<Rightarrow> (None, w3))
             else (None, w2)))"

text \<open>The loop of \<open>checkNetworkProposals\<close>: an error of \<open>checkProposal\<close> is printed only.\<close>

fun checkEach ::
  "env \<Rightarrow> Service \<Rightarrow> Proposal list \<Rightarrow> NetworkConfig \<Rightarrow> world \<Rightarrow> world" where
  "checkEach env s [] networkConfig w = w"
| "checkEach env s (proposal # rest) networkConfig w =
    (case checkProposal env s proposal networkConfig w of
       (err, w') \<Rightarrow> checkEach env s rest networkConfig w')"





section \<open>Vocabulary of the statements\<close>

text \<open>
  The channels a notifier has enabled, as the deliveries its \<open>SendNotification\<close> should
  attempt, and the failure each channel reports (\<open>None\<close> when it is disabled or delivers).
  The webhook is asked after the chat bot, so it sees the bot's delivery in the history.
\<close>

definition telegramAttempt :: "Notifier \<Rightarrow> NotificationMessage \<Rightarrow> delivery list" where
  "telegramAttempt n msg =
    (case telegram n of
       Some tbot \<Rightarrow> [TelegramSend tbot (telegramChatID n) (formatTelegramMessage msg)]
     | None \<Rightarrow> [])"

definition slackAttempt :: "Notifier \<Rightarrow> NotificationMessage \<Rightarrow> delivery list" where
  "slackAttempt n msg =
    (if SlackEnabled (slack n) then [SlackPost (WebhookURL (slack n)) (formatSlackMessage msg)]
     else [])"

definition telegramFailure :: "env \<Rightarrow> Notifier \<Rightarrow> NotificationMessage \<Rightarrow> world \<Rightarrow> err option" where
  "telegramFailure env n msg w =
    (case telegram n of
       Some tbot \<Rightarrow> fst (sendTelegramNotification env n tbot msg w)
     | None \<Rightarrow> None)"

definition slackFailure :: "env \<Rightarrow> Notifier \<Rightarrow> NotificationMessage \<Rightarrow> world \<Rightarrow> err option" where
  "slackFailure env n msg w =
    (if SlackEnabled (slack n)
     then fst (sendSlackNotification env n msg
                 (w\<lparr>deliveries := deliveries w @ telegramAttempt n msg\<rparr>))
     else None)"

definition firstError :: "err option \<Rightarrow> err option \<Rightarrow> err option" where
  "firstError t s =
    (case t of
       Some e \<Rightarrow> Some (Wrap ''telegram'' e)
     | None \<Rightarrow> (case s of Some e \<Rightarrow> Some (Wrap ''slack'' e) | None \<Rightarrow> None))"

text \<open>
  The deliveries of one alert: the attempts of all enabled channels with its message.
  \<open>withinLead boundary now lead\<close> is the law of the thresholds: the boundary lies after
  now, and the hours until it, as the service counts them, are more than 0 and at most the
  lead time.
\<close>

definition alertAttempts :: "Notifier \<Rightarrow> NotificationMessage \<Rightarrow> delivery list" where
  "alertAttempts n msg = telegramAttempt n msg @ slackAttempt n msg"

definition withinLead :: "Time \<Rightarrow> Time \<Rightarrow> int \<Rightarrow> bool" where
  "withinLead boundary now lead =
    (now < boundary \<and> 0 < hoursUntil boundary now \<and> hoursUntil boundary now \<le> of_int lead)"

text \<open>
  A raw proposal of the response is in the voting period by its status; it parses when both
  timestamps and the identifier are read without error; \<open>toProposal\<close> is the proposal the
  loop builds from one that parses. \<open>fetched env c raws\<close> says that the request of client
  \<open>c\<close> succeeds and the body decodes to the proposals \<open>raws\<close>.
\<close>

definition isVoting :: "CosmosProposal \<Rightarrow> bool" where
  "isVoting r = (rawStatus r = ''PROPOSAL_STATUS_VOTING_PERIOD'')"

definition parses :: "env \<Rightarrow> CosmosProposal \<Rightarrow> bool" where
  "parses env r =
    (\<not> isl (timeParse env (rawVotingStart r)) \<and> \<not> isl (timeParse env (rawVotingEnd r))
     \<and> \<not> isl (Sscanf_d (rawID r)))"

definition retained :: "env \<Rightarrow> CosmosProposal \<Rightarrow> bool" where
  "retained env r = (isVoting r \<and> parses env r)"

definition excluded :: "env \<Rightarrow> CosmosProposal \<Rightarrow> bool" where
  "excluded env r =
    (isVoting r \<and>
     (isl (timeParse env (rawVotingStart r)) \<or> isl (timeParse env (rawVotingEnd r))
      \<or> isl (Sscanf_d (rawID r))))"

definition toProposal :: "env \<Rightarrow> Client \<Rightarrow> CosmosProposal \<Rightarrow> Proposal" where
  "toProposal env c r =
    \<lparr>ID = projr (Sscanf_d (rawID r)),
     Title = (if rawTitle r = [] then ''Proposal '' @ rawID r else rawTitle r),
     Description = (if rawDescription r = [] then ''No description available''
                    else rawDescription r),
     Status = rawStatus r,
     VotingStart = projr (timeParse env (rawVotingStart r)),
     VotingEnd = projr (timeParse env (rawVotingEnd r)),
     Network = Name (config c)\<rparr>"

definition fetched :: "env \<Rightarrow> Client \<Rightarrow> CosmosProposal list \<Rightarrow> bool" where
  "fetched env c raws =
    (case makeRequest env (RestEndpoint (config c) @ ''/cosmos/gov/v1/proposals'') of
       Inl err \<Rightarrow> False
     | Inr body \<Rightarrow> jsonUnmarshal env body = Inr raws)"


section \<open>Example scenarios\<close>

text \<open>
  Concrete inputs for the examples below: the clock stands at 2025-01-01T00:00:00Z, the
  parser knows two timestamps, every request is answered with status 200 and a body that
  decodes to the given proposals, and both channels deliver. Variants let the bot fail,
  fix the webhook's status code, or make one network unreachable.
\<close>

definition exampleNow :: Time where
  "exampleNow = 1735689600000000000"

definition exampleParse :: "string \<Rightarrow> err + Time" where
  "exampleParse s =
    (if s = ''2025-01-01T05:00:00Z'' then Inr 1735707600000000000
     else if s = ''2025-01-08T00:00:00Z'' then Inr 1736294400000000000
     else Inl (Error ''cannot parse''))"

definition exampleEnv :: "CosmosProposal list \<Rightarrow> env" where
  "exampleEnv raws =
    \<lparr>NewBot = (\<lambda>token. Inr (TelegramBot token)),
     botSend = (\<lambda>history tbot chat text. None),
     httpPost = (\<lambda>history url text. Inr 200),
     newRequest = (\<lambda>url. None),
     clientDo = (\<lambda>url. Inr \<lparr>StatusCode = 200, Body = Inr ''{}''\<rparr>),
     jsonUnmarshal = (\<lambda>body. Inr raws),
     timeParse = exampleParse,
     timeNow = (\<lambda>k. exampleNow)\<rparr>"

definition failingBotEnv :: "CosmosProposal list \<Rightarrow> env" where
  "failingBotEnv raws =
    (exampleEnv raws)\<lparr>botSend := (\<lambda>history tbot chat text. Some (Error ''bot down''))\<rparr>"

definition statusEnv :: "int \<Rightarrow> env" where
  "statusEnv status = (exampleEnv [])\<lparr>httpPost := (\<lambda>history url text. Inr status)\<rparr>"

definition exampleNetwork :: NetworkConfig where
  "exampleNetwork =
    \<lparr>Name = ''Babylon Mainnet'', RestEndpoint = ''https://rest.example'', ChainID = ''bbn-1''\<rparr>"


definition exampleRaw :: "string \<Rightarrow> string \<Rightarrow> string \<Rightarrow> string \<Rightarrow> CosmosProposal" where
  "exampleRaw i title status start =
    \<lparr>rawID = i, rawTitle = title, rawDescription = [], rawStatus = status,
     rawVotingStart = start, rawVotingEnd = ''2025-01-08T00:00:00Z''\<rparr>"


definition exampleAlerts :: AlertConfig where
  "exampleAlerts =
    \<lparr>HoursBeforeStart = 24, HoursBeforeEnd = 24, CheckIntervalMinutes = 30,
     NotifyOnStartup = False\<rparr>"

definition exampleProposal :: "Time \<Rightarrow> Time \<Rightarrow> Proposal" where
  "exampleProposal start end =
    \<lparr>ID = 7, Title = ''Upgrade'', Description = ''Software upgrade'',
     Status = ''PROPOSAL_STATUS_VOTING_PERIOD'', VotingStart = start, VotingEnd = end,
     Network = ''Babylon Mainnet''\<rparr>"

definition fetchedProposal :: "64 word \<Rightarrow> string \<Rightarrow> Proposal" where
  "fetchedProposal i title =
    \<lparr>ID = i, Title = title, Description = ''No description available'',
     Status = ''PROPOSAL_STATUS_VOTING_PERIOD'', VotingStart = 1735707600000000000,
     VotingEnd = 1736294400000000000, Network = ''Babylon Mainnet''\<rparr>"

definition exampleMessage :: NotificationMessage where
  "exampleMessage =
    \<lparr>msgTitle = ''Voting'', msgContent = ''Proposal 7'', msgNetwork = ''Babylon Mainnet'',
     msgChainID = ''bbn-1'', msgProposalID = 7, msgExplorerURL = []\<rparr>"

definition exampleNotifier :: "TelegramBot option \<Rightarrow> bool \<Rightarrow> Notifier" where
  "exampleNotifier tg slackOn =
    \<lparr>telegram = tg, telegramChatID = 42,
     slack = \<lparr>SlackEnabled = slackOn, WebhookURL = ''https://hooks.example/T''\<rparr>\<rparr>"

definition exampleWorld :: world where
  "exampleWorld = \<lparr>deliveries = [], clockReads = 0\<rparr>"

definition exampleService :: "Notifier \<Rightarrow> (string \<times> NetworkConfig) list \<Rightarrow> Service" where
  "exampleService n nets =
    \<lparr>svc_config =
       \<lparr>Alerts = exampleAlerts, Networks = nets,
        Notifications =
          \<lparr>Telegram = \<lparr>TelegramEnabled = (telegram n \<noteq> None), BotToken = ''token'',
                        ChatID = telegramChatID n\<rparr>,
           Slack = slack n\<rparr>\<rparr>,
     notifier = n,
     clients = map (\<lambda>(name, networkConfig). (name, NewClient networkConfig)) nets,
     stopChan = Open\<rparr>"

definition longLeadService :: Service where
  "longLeadService =
    \<lparr>svc_config =
       \<lparr>Alerts = \<lparr>HoursBeforeStart = 4096, HoursBeforeEnd = 24, CheckIntervalMinutes = 30,
                  NotifyOnStartup = False\<rparr>,
        Networks = [(''babylon'', exampleNetwork)],
        Notifications =
          \<lparr>Telegram = \<lparr>TelegramEnabled = True, BotToken = ''token'', ChatID = 42\<rparr>,
           Slack = \<lparr>SlackEnabled = False, WebhookURL = []\<rparr>\<rparr>\<rparr>,
     notifier = exampleNotifier (Some (TelegramBot ''token'')) False,
     clients = [(''babylon'', NewClient exampleNetwork)],
     stopChan = Open\<rparr>"

section \<open>Rounding to float64\<close>

text \<open>
  Rounding to the nearest integer: exact on integers, never across an integer, odd, and
  within one half of its argument.
\<close>

lemma rne_of_int: "rne (of_int k) = k"
  by (simp add: rne_def)

lemma rne_ge:
  assumes "of_int k \<le> q"
  shows "k \<le> rne q"
proof -
  have "k \<le> \<lfloor>q\<rfloor>" using assms by (simp add: le_floor_iff)
  moreover have "\<lfloor>q\<rfloor> \<le> rne q" by (simp add: rne_def Let_def)
  ultimately show ?thesis by linarith
qed

lemma rne_le:
  assumes "q \<le> of_int k"
  shows "rne q \<le> k"
proof (cases "\<lfloor>q\<rfloor> = k")
  case True
  then have "q = of_int k" using assms by linarith
  then show ?thesis by (simp add: rne_of_int)
next
  case False
  moreover have "\<lfloor>q\<rfloor> \<le> k" using floor_mono [OF assms] by simp
  ultimately have "\<lfloor>q\<rfloor> + 1 \<le> k" by linarith
  then show ?thesis by (auto simp: rne_def Let_def)
qed

lemma rne_err: "\<bar>of_int (rne q) - q\<bar> \<le> 1 / 2"
proof -
  have "of_int \<lfloor>q\<rfloor> \<le> q" "q < of_int \<lfloor>q\<rfloor> + 1" by linarith+
  then show ?thesis by (auto simp: rne_def Let_def)
qed

lemma pow2_pos: "0 < (2::rat) powi e"
  by simp

lemma expo_dn_le0: "expo_dn x \<le> 0"
proof (induction x rule: expo_dn.induct)
  case (1 x)
  show ?case
  proof (cases "0 < x \<and> x < 2 ^ 52")
    case True
    with 1 have "expo_dn (2 * x) \<le> 0" by simp
    then show ?thesis using True by (subst expo_dn.simps) simp
  next
    case False
    then have "expo_dn x = 0" by (subst expo_dn.simps) auto
    then show ?thesis by simp
  qed
qed

lemma expo_dn_bounds:
  "0 < x \<Longrightarrow> x < 2 ^ 53 \<Longrightarrow>
   2 ^ 52 \<le> x / 2 powi expo_dn x \<and> x / 2 powi expo_dn x < 2 ^ 53"
proof (induction x rule: expo_dn.induct)
  case (1 x)
  show ?case
  proof (cases "x < 2 ^ 52")
    case True
    have c: "0 < x \<and> x < 2 ^ 52" using True "1.prems" by simp
    have e: "expo_dn x = expo_dn (2 * x) - 1" using c by (subst expo_dn.simps) simp
    have "2 * x < 2 ^ 53" using True by simp
    with 1 c have ih: "2 ^ 52 \<le> 2 * x / 2 powi expo_dn (2 * x) \<and>
        2 * x / 2 powi expo_dn (2 * x) < 2 ^ 53" by simp
    have eq: "x / 2 powi (expo_dn (2 * x) - 1) = 2 * x / 2 powi expo_dn (2 * x)"
      by (simp add: power_int_diff)
    show ?thesis unfolding e eq using ih by blast
  next
    case False
    then have "expo_dn x = 0" by (subst expo_dn.simps) simp
    with False "1.prems" show ?thesis by simp
  qed
qed

lemma expo_up_ge0: "0 \<le> expo_up x"
proof (induction x rule: expo_up.induct)
  case (1 x)
  show ?case
  proof (cases "2 ^ 53 \<le> x")
    case True
    with 1 have "0 \<le> expo_up (x / 2)" by simp
    then show ?thesis using True by (subst expo_up.simps) simp
  next
    case False
    then have "expo_up x = 0" by (subst expo_up.simps) simp
    then show ?thesis by simp
  qed
qed

lemma expo_up_bounds:
  "2 ^ 52 \<le> x \<Longrightarrow>
   2 ^ 52 \<le> x / 2 powi expo_up x \<and> x / 2 powi expo_up x < 2 ^ 53"
proof (induction x rule: expo_up.induct)
  case (1 x)
  show ?case
  proof (cases "2 ^ 53 \<le> x")
    case True
    have e: "expo_up x = expo_up (x / 2) + 1" using True by (subst expo_up.simps) simp
    have "2 ^ 52 \<le> x / 2" using True by simp
    with 1 True have ih: "2 ^ 52 \<le> x / 2 / 2 powi expo_up (x / 2) \<and>
        x / 2 / 2 powi expo_up (x / 2) < 2 ^ 53" by simp
    have eq: "x / 2 powi (expo_up (x / 2) + 1) = x / 2 / 2 powi expo_up (x / 2)"
      by (simp add: power_int_add)
    show ?thesis unfolding e eq using ih by blast
  next
    case False
    then have "expo_up x = 0" by (subst expo_up.simps) simp
    with False "1.prems" show ?thesis by simp
  qed
qed

lemma f64_exponent_bounds:
  assumes "x \<noteq> 0"
  shows "2 ^ 52 \<le> \<bar>x\<bar> / 2 powi f64_exponent x" and "\<bar>x\<bar> / 2 powi f64_exponent x < 2 ^ 53"
proof -
  have "2 ^ 52 \<le> \<bar>x\<bar> / 2 powi f64_exponent x \<and> \<bar>x\<bar> / 2 powi f64_exponent x < 2 ^ 53"
  proof (cases "\<bar>x\<bar> < 2 ^ 52")
    case True
    then have "\<bar>x\<bar> < 2 ^ 53" by simp
    moreover have "0 < \<bar>x\<bar>" using assms by simp
    ultimately show ?thesis using True expo_dn_bounds [of "\<bar>x\<bar>"]
      by (simp add: f64_exponent_def)
  next
    case False
    then show ?thesis using expo_up_bounds [of "\<bar>x\<bar>"]
      by (simp add: f64_exponent_def)
  qed
  then show "2 ^ 52 \<le> \<bar>x\<bar> / 2 powi f64_exponent x" and "\<bar>x\<bar> / 2 powi f64_exponent x < 2 ^ 53"
    by simp_all
qed

lemma f64_exponent_small: "\<bar>x\<bar> < 2 ^ 53 \<Longrightarrow> f64_exponent x \<le> 0"
proof (cases "\<bar>x\<bar> < 2 ^ 52")
  case True
  then show ?thesis by (simp add: f64_exponent_def expo_dn_le0)
next
  case False
  assume "\<bar>x\<bar> < 2 ^ 53"
  then have "expo_up \<bar>x\<bar> = 0" by (subst expo_up.simps) simp
  with False show ?thesis by (simp add: f64_exponent_def)
qed

text \<open>
  Rounding to float64: odd, exact on integers below \<open>2\<^sup>5\<^sup>3\<close> in magnitude, never across
  such an integer, positive on positive numbers, and within a relative error of \<open>2\<^sup>-\<^sup>5\<^sup>3\<close>.
\<close>

lemma rne_minus: "rne (- q) = - rne q"
proof (cases "q = of_int \<lfloor>q\<rfloor>")
  case True
  then obtain k where "q = of_int k" ..
  then have "- q = of_int (- k)" by simp
  then show ?thesis using \<open>q = of_int k\<close> by (simp only: rne_of_int)
next
  case False
  have fl: "of_int \<lfloor>q\<rfloor> < q" "q < of_int \<lfloor>q\<rfloor> + 1" using False by linarith+
  have "\<lfloor>- q\<rfloor> = - \<lfloor>q\<rfloor> - 1"
    using fl by (intro floor_unique) auto
  then show ?thesis using fl by (auto simp: rne_def Let_def)
qed

lemma f64_round_0: "f64_round 0 = 0"
  by (simp add: f64_round_def)

lemma f64_round_minus: "f64_round (- x) = - f64_round x"
  by (simp add: f64_round_def f64_exponent_def Let_def rne_minus)

lemma f64_round_mantissa:
  "x \<noteq> 0 \<Longrightarrow> f64_round x = of_int (rne (x / 2 powi f64_exponent x)) * 2 powi f64_exponent x"
  by (simp add: f64_round_def Let_def)

lemma scaled_int: "e \<le> 0 \<Longrightarrow> (of_int k :: rat) / 2 powi e = of_int (k * 2 ^ nat (- e))"
  by (cases "e = 0") (auto simp: power_int_def power_inverse field_simps)

lemma pow2_ge2: "1 \<le> e \<Longrightarrow> (2::rat) \<le> 2 powi e"
proof -
  assume "1 \<le> e"
  then have "(2::rat) powi 1 \<le> 2 powi e" by (intro power_int_increasing) auto
  then show ?thesis by simp
qed

lemma f64_round_le_int:
  assumes xk: "x \<le> of_int k" and k: "\<bar>k\<bar> < 2 ^ 53"
  shows "f64_round x \<le> of_int k"
proof (cases "x = 0")
  case True
  then show ?thesis using xk by (simp add: f64_round_0)
next
  case False
  define e where "e = f64_exponent x"
  define P :: rat where "P = 2 powi e"
  have P: "0 < P" by (simp add: P_def)
  have r: "f64_round x = of_int (rne (x / P)) * P"
    using False by (simp add: f64_round_mantissa e_def P_def)
  have lo: "2 ^ 52 \<le> \<bar>x\<bar> / P"
    using f64_exponent_bounds(1) [OF False] by (simp add: e_def P_def)
  show ?thesis
  proof (cases "e \<le> 0")
    case True
    define K where "K = k * 2 ^ nat (- e)"
    have K: "of_int k / P = of_int K" using True by (simp add: scaled_int K_def P_def)
    have "x / P \<le> of_int k / P" using xk P by (simp add: divide_right_mono)
    then have "rne (x / P) \<le> K" unfolding K by (rule rne_le)
    then have "(of_int (rne (x / P)) :: rat) \<le> of_int K" by simp
    then have "of_int (rne (x / P)) * P \<le> of_int K * P" using P by (simp add: mult_right_mono)
    also have "of_int K * P = of_int k" using K P by (simp add: field_simps)
    finally show ?thesis using r by simp
  next
    case False
    then have "2 \<le> P" by (simp add: P_def pow2_ge2)
    have "2 ^ 52 * P \<le> \<bar>x\<bar>" using lo P by (simp add: pos_le_divide_eq)
    with \<open>2 \<le> P\<close> have big: "2 ^ 53 \<le> \<bar>x\<bar>" by simp
    have "(of_int k :: rat) < 2 ^ 53"
    proof -
      have "k < 2 ^ 53" using k by simp
      then have "(of_int k :: rat) < of_int (2 ^ 53)" by (simp only: of_int_less_iff)
      then show ?thesis by simp
    qed
    with xk big have neg: "x < 0" by simp
    then have "x / P = - (\<bar>x\<bar> / P)" by simp
    with lo have "x / P \<le> - (2 ^ 52)" by linarith
    moreover have c: "(of_int (- (2 ^ 52)) :: rat) = - (2 ^ 52)" by simp
    ultimately have "x / P \<le> of_int (- (2 ^ 52))" by (simp only: c)
    then have "rne (x / P) \<le> - (2 ^ 52)" by (rule rne_le)
    then have "(of_int (rne (x / P)) :: rat) \<le> of_int (- (2 ^ 52))" by (simp only: of_int_le_iff)
    then have m: "(of_int (rne (x / P)) :: rat) \<le> - (2 ^ 52)" by (simp only: c)
    have "of_int (rne (x / P)) * P \<le> - (2 ^ 52) * P"
      using m P by (simp only: mult_le_cancel_right_pos)
    also have "\<dots> \<le> - (2 ^ 53)" using \<open>2 \<le> P\<close> by simp
    finally have "f64_round x \<le> - (2 ^ 53)" using r by simp
    moreover have "(- (2 ^ 53) :: rat) < of_int k"
    proof -
      have "- (2 ^ 53) < k" using k by simp
      then have "(of_int (- (2 ^ 53)) :: rat) < of_int k" by (simp only: of_int_less_iff)
      then show ?thesis by simp
    qed
    ultimately show ?thesis by linarith
  qed
qed

lemma f64_round_ge_int:
  assumes "of_int k \<le> x" and "\<bar>k\<bar> < 2 ^ 53"
  shows "of_int k \<le> f64_round x"
proof -
  have "f64_round (- x) \<le> of_int (- k)"
    using assms by (intro f64_round_le_int) auto
  then show ?thesis by (simp add: f64_round_minus)
qed

lemma f64_round_of_int:
  assumes "\<bar>k\<bar> < 2 ^ 53"
  shows "f64_round (of_int k) = of_int k"
  using f64_round_le_int [of "of_int k" k] f64_round_ge_int [of k "of_int k"] assms
  by simp

lemma f64_round_pos:
  assumes "0 < x"
  shows "0 < f64_round x"
proof -
  define P :: rat where "P = 2 powi f64_exponent x"
  have P: "0 < P" by (simp add: P_def)
  have x0: "x \<noteq> 0" using assms by simp
  have "2 ^ 52 \<le> \<bar>x\<bar> / P" using f64_exponent_bounds(1) [OF x0] by (simp add: P_def)
  then have "of_int (2 ^ 52) \<le> x / P" using assms by simp
  then have "2 ^ 52 \<le> rne (x / P)" by (rule rne_ge)
  then have "(0::rat) < of_int (rne (x / P))" by simp
  then have "0 < of_int (rne (x / P)) * P" using P by simp
  then show ?thesis using x0 by (simp add: f64_round_mantissa P_def)
qed

lemma f64_round_rel:
  assumes "0 < x"
  shows "x * (1 - 1 / 2 ^ 53) \<le> f64_round x"
proof -
  define P :: rat where "P = 2 powi f64_exponent x"
  have P: "0 < P" by (simp add: P_def)
  have x0: "x \<noteq> 0" using assms by simp
  have "2 ^ 52 \<le> \<bar>x\<bar> / P" using f64_exponent_bounds(1) [OF x0] by (simp add: P_def)
  then have "2 ^ 52 * P \<le> x" using assms P by (simp add: pos_le_divide_eq)
  then have hp: "P / 2 \<le> x / 2 ^ 53" by simp
  have "x / P - 1 / 2 \<le> of_int (rne (x / P))" using rne_err [of "x / P"] by linarith
  then have "(x / P - 1 / 2) * P \<le> of_int (rne (x / P)) * P"
    using P by (simp only: mult_le_cancel_right_pos)
  moreover have "(x / P - 1 / 2) * P = x - P / 2" using P by (simp add: field_simps)
  moreover have "f64_round x = of_int (rne (x / P)) * P"
    using x0 by (simp add: f64_round_mantissa P_def)
  ultimately have "x - P / 2 \<le> f64_round x" by linarith
  with hp show ?thesis by (simp add: algebra_simps)
qed

text \<open>Evaluation of the rounding on numerals, for the examples.\<close>

lemma floor_rat_numeral_div:
  "\<lfloor>numeral a / numeral b :: rat\<rfloor> = numeral a div numeral b"
  by (metis floor_divide_of_int_eq of_int_numeral)

lemma floor_rat_neg_numeral_div:
  "\<lfloor>- (numeral a / numeral b) :: rat\<rfloor> = - numeral a div numeral b"
  by (metis divide_minus_left floor_divide_of_int_eq of_int_neg_numeral of_int_numeral)

lemma floor_rat_one_div:
  "\<lfloor>1 / numeral b :: rat\<rfloor> = 1 div numeral b"
  by (metis floor_divide_of_int_eq of_int_numeral of_int_1)

lemmas f64_eval = Hours_def Hour_def Let_def f64_add_def f64_div_def float64_def
  f64_round_def f64_exponent_def rne_def expo_dn.simps expo_up.simps
  signed_divide_int_def signed_modulo_int_def
  floor_rat_numeral_div floor_rat_neg_numeral_div floor_rat_one_div

section \<open>Hours of a positive duration\<close>

text \<open>
  For a positive duration the two parts of \<open>Hours\<close> are the quotient and the remainder by
  an hour, both converted exactly; the result is positive and at most 2562048, one more than
  the whole hours of the largest duration.
\<close>

lemma float64_exact: "\<bar>k\<bar> < 2 ^ 53 \<Longrightarrow> float64 k = of_int k"
  by (simp add: float64_def f64_round_of_int)

lemma div_Hour_bounds:
  assumes "0 < d" and "d \<le> maxDuration"
  shows "0 \<le> d div Hour" and "d div Hour \<le> 2562047"
proof -
  show "0 \<le> d div Hour" using assms by (simp add: Hour_def pos_imp_zdiv_nonneg_iff)
  have "d div Hour \<le> maxDuration div Hour"
    using assms by (intro zdiv_mono1) (simp_all add: Hour_def)
  then show "d div Hour \<le> 2562047" by (simp add: maxDuration_def Hour_def)
qed

lemma mod_Hour_bounds: "0 \<le> d mod Hour" "d mod Hour < 3600000000000"
  by (simp_all add: Hour_def)

lemma Hours_pos_eq:
  assumes "0 < d" and "d \<le> maxDuration"
  shows "Hours d = f64_round (of_int (d div Hour) +
           f64_round (of_int (d mod Hour) / 3600000000000))"
proof -
  have s: "d sdiv Hour = d div Hour" "d smod Hour = d mod Hour"
    using assms by (simp_all add: signed_divide_int_def signed_modulo_int_def Hour_def)
  have "\<bar>d div Hour\<bar> < 2 ^ 53" using div_Hour_bounds [OF assms] by simp
  then have h: "float64 (d div Hour) = of_int (d div Hour)" by (rule float64_exact)
  have "\<bar>d mod Hour\<bar> < 2 ^ 53" using mod_Hour_bounds [of d] by simp
  then have n: "float64 (d mod Hour) = of_int (d mod Hour)" by (rule float64_exact)
  show ?thesis by (simp add: Hours_def Let_def s h n f64_add_def f64_div_def)
qed

lemma frac_bounds:
  assumes "0 \<le> n" and "n < 3600000000000"
  shows "0 \<le> f64_round (of_int n / 3600000000000)"
    and "f64_round (of_int n / 3600000000000) \<le> 1"
    and "0 < n \<Longrightarrow> 1 / 2 ^ 42 < f64_round (of_int n / 3600000000000)"
proof -
  let ?x = "(of_int n :: rat) / 3600000000000"
  have x0: "0 \<le> ?x" using assms by simp
  have x1: "?x \<le> 1" using assms by simp
  show "0 \<le> f64_round ?x" using f64_round_ge_int [of 0 ?x] x0 by simp
  show "f64_round ?x \<le> 1" using f64_round_le_int [of ?x 1] x1 by simp
  show "1 / 2 ^ 42 < f64_round ?x" if "0 < n"
  proof -
    have "1 \<le> n" using that by simp
    then have "(1::rat) \<le> of_int n" by (simp only: of_int_1_le_iff)
    then have lo: "1 / 3600000000000 \<le> ?x" by (simp add: divide_right_mono)
    then have "0 < ?x" by linarith
    then have "?x * (1 - 1 / 2 ^ 53) \<le> f64_round ?x" by (rule f64_round_rel)
    moreover have "(1 / 3600000000000) * (1 - 1 / 2 ^ 53) \<le> ?x * (1 - 1 / 2 ^ 53)"
      using lo by (intro mult_right_mono) simp_all
    moreover have "(1::rat) / 2 ^ 42 < (1 / 3600000000000) * (1 - 1 / 2 ^ 53)" by simp
    ultimately show ?thesis by linarith
  qed
qed

lemma Hours_bounds:
  assumes "0 < d" and "d \<le> maxDuration"
  shows "0 < Hours d" and "Hours d \<le> 2562048"
proof -
  let ?h = "d div Hour" and ?n = "d mod Hour"
  let ?q = "f64_round (of_int ?n / 3600000000000)"
  note hb = div_Hour_bounds [OF assms]
  note nb = mod_Hour_bounds [of d]
  note qb = frac_bounds [OF nb]
  have eq: "Hours d = f64_round (of_int ?h + ?q)" by (rule Hours_pos_eq [OF assms])
  have "0 < ?h \<or> 0 < ?n"
  proof (rule ccontr)
    assume "\<not> ?thesis"
    with hb nb have "?h = 0" "?n = 0" by simp_all
    then have "d = 0" using div_mult_mod_eq [of d Hour] by simp
    with assms show False by simp
  qed
  then have "0 < of_int ?h + ?q"
  proof
    assume "0 < ?h"
    then have "(0::rat) < of_int ?h" by simp
    with qb(1) show ?thesis by linarith
  next
    assume "0 < ?n"
    then have "0 < ?q" using qb(3) by simp
    moreover have "(0::rat) \<le> of_int ?h" using hb by simp
    ultimately show ?thesis by linarith
  qed
  then show "0 < Hours d" unfolding eq by (rule f64_round_pos)
  have "(of_int ?h :: rat) \<le> 2562047" using hb(2) by (simp only: of_int_le_numeral_iff)
  with qb(2) have "of_int ?h + ?q \<le> of_int 2562048" by simp
  then have "f64_round (of_int ?h + ?q) \<le> of_int 2562048"
    by (rule f64_round_le_int) simp
  then show "Hours d \<le> 2562048" unfolding eq by simp
qed

lemma le_float64_iff:
  assumes "\<bar>h\<bar> \<le> 2562048"
  shows "(h \<le> float64 H) = (h \<le> of_int H)"
proof -
  consider "\<bar>H\<bar> < 2 ^ 53" | "2 ^ 53 \<le> H" | "H \<le> - (2 ^ 53)" by linarith
  then show ?thesis
  proof cases
    case 1
    then show ?thesis by (simp add: float64_exact)
  next
    case 2
    then have "(of_int (2 ^ 53 - 1) :: rat) \<le> of_int H" by simp
    then have "of_int (2 ^ 53 - 1) \<le> f64_round (of_int H)"
      by (rule f64_round_ge_int) simp
    then have "h \<le> float64 H" using assms by (simp add: float64_def)
    moreover have "h \<le> of_int H"
    proof -
      have "(of_int 2562048 :: rat) \<le> of_int H" using 2 by simp
      with assms show ?thesis by simp
    qed
    ultimately show ?thesis by simp
  next
    case 3
    then have "(of_int H :: rat) \<le> of_int (- (2 ^ 53 - 1))" by simp
    then have "f64_round (of_int H) \<le> of_int (- (2 ^ 53 - 1))"
      by (rule f64_round_le_int) simp
    then have "\<not> h \<le> float64 H" using assms by (simp add: float64_def)
    moreover have "\<not> h \<le> of_int H"
    proof -
      have "(of_int H :: rat) \<le> of_int (- 2562049)" using 3 by simp
      with assms show ?thesis by simp
    qed
    ultimately show ?thesis by simp
  qed
qed

text \<open>
  For thresholds below 4096 hours (170 days) the float64 comparison decides exactly whether
  the duration is at most so many hours: below 4096 the spacing of float64 numbers is at
  most \<open>2\<^sup>-\<^sup>4\<^sup>1\<close>, less than twice the nanosecond's \<open>1/3600000000000\<close> of an hour. From
  4096 hours on, the sum in \<open>Hours\<close> can round a surplus of a nanosecond away.
\<close>

lemma pow2_lt_imp: "(2::rat) powi a < 2 powi b \<Longrightarrow> a < b"
proof (rule ccontr)
  assume l: "(2::rat) powi a < 2 powi b" and "\<not> a < b"
  then have "b \<le> a" by simp
  then have "(2::rat) powi b \<le> 2 powi a" by (intro power_int_increasing) auto
  with l show False by simp
qed

lemma f64_round_gt_small:
  assumes s: "0 < s" "s < 4096" and k: "of_int k + 1 / 2 ^ 42 < s"
  shows "of_int k < f64_round s"
proof -
  define e where "e = f64_exponent s"
  define P :: rat where "P = 2 powi e"
  have P: "0 < P" by (simp add: P_def)
  have s0: "s \<noteq> 0" using s by simp
  have "2 ^ 52 \<le> \<bar>s\<bar> / P" using f64_exponent_bounds(1) [OF s0] by (simp add: P_def e_def)
  then have "2 ^ 52 * P \<le> s" using s P by (simp add: pos_le_divide_eq)
  with s have "P < 1 / 2 ^ 40" by simp
  moreover have "(1::rat) / 2 ^ 40 = 2 powi (- 40)" by (simp add: power_int_minus field_simps)
  ultimately have "(2::rat) powi e < 2 powi (- 40)" by (simp add: P_def)
  then have "e < - 40" by (rule pow2_lt_imp)
  then have "e \<le> - 41" by simp
  then have "(2::rat) powi e \<le> 2 powi (- 41)" by (intro power_int_increasing) auto
  moreover have "(2::rat) powi (- 41) = 1 / 2 ^ 41" by (simp add: power_int_minus field_simps)
  ultimately have P41: "P \<le> 1 / 2 ^ 41" by (simp add: P_def)
  have "s / P - 1 / 2 \<le> of_int (rne (s / P))" using rne_err [of "s / P"] by linarith
  then have "(s / P - 1 / 2) * P \<le> of_int (rne (s / P)) * P"
    using P by (simp only: mult_le_cancel_right_pos)
  moreover have "(s / P - 1 / 2) * P = s - P / 2" using P by (simp add: field_simps)
  moreover have "f64_round s = of_int (rne (s / P)) * P"
    using s0 by (simp add: f64_round_mantissa P_def e_def)
  ultimately have "s - P / 2 \<le> f64_round s" by linarith
  moreover have "P / 2 \<le> 1 / 2 ^ 42" using P41 by simp
  ultimately show ?thesis using k by linarith
qed

lemma Hours_le_exact:
  assumes d: "0 < d" "d \<le> maxDuration" and H: "H < 4096"
  shows "(Hours d \<le> of_int H) = (d \<le> H * Hour)"
proof -
  let ?h = "d div Hour" and ?n = "d mod Hour"
  let ?q = "f64_round (of_int ?n / 3600000000000)"
  note hb = div_Hour_bounds [OF d]
  note nb = mod_Hour_bounds [of d]
  note qb = frac_bounds [OF nb]
  have eq: "Hours d = f64_round (of_int ?h + ?q)" by (rule Hours_pos_eq [OF d])
  have dd: "d = ?h * Hour + ?n" by simp
  show ?thesis
  proof (cases "d \<le> H * Hour")
    case True
    have "of_int ?h + ?q \<le> of_int H"
    proof (cases "?n = 0")
      case True
      with dd have "d = ?h * Hour" by simp
      with \<open>d \<le> H * Hour\<close> have "?h * Hour \<le> H * Hour" by simp
      then have "?h \<le> H" by (simp add: Hour_def)
      then have "(of_int ?h :: rat) \<le> of_int H" by (simp only: of_int_le_iff)
      moreover have "?q = 0" using True by (simp add: f64_round_0)
      ultimately show ?thesis by simp
    next
      case False
      with nb have "0 < ?n" by simp
      with dd have "?h * Hour < d" by linarith
      with \<open>d \<le> H * Hour\<close> have "?h * Hour < H * Hour" by simp
      then have "?h + 1 \<le> H" by (simp add: Hour_def)
      then have "(of_int (?h + 1) :: rat) \<le> of_int H" by (simp only: of_int_le_iff)
      with qb(2) show ?thesis by simp
    qed
    moreover have "\<bar>H\<bar> < 2 ^ 53"
    proof -
      have "0 < H * Hour" using True d by simp
      then have "0 < H" by (simp add: Hour_def zero_less_mult_iff)
      with H show ?thesis by simp
    qed
    ultimately have "f64_round (of_int ?h + ?q) \<le> of_int H" by (rule f64_round_le_int)
    with True show ?thesis by (simp add: eq)
  next
    case False
    then have gt: "H * Hour < d" by simp
    have "d < (?h + 1) * Hour" using dd nb by (simp add: Hour_def algebra_simps)
    with gt have "H * Hour < (?h + 1) * Hour" by simp
    then have Hh: "H \<le> ?h" by (simp add: Hour_def)
    have "of_int H < f64_round (of_int ?h + ?q)"
    proof (cases "of_int ?h + ?q < 4096")
      case True
      have "0 < ?n \<or> H < ?h"
      proof (rule ccontr)
        assume "\<not> ?thesis"
        with nb Hh have "?n = 0" "?h = H" by simp_all
        with dd gt show False by simp
      qed
      then have "of_int H + 1 / 2 ^ 42 < of_int ?h + ?q"
      proof
        assume "0 < ?n"
        then have "1 / 2 ^ 42 < ?q" by (rule qb(3))
        moreover have "(of_int H :: rat) \<le> of_int ?h" using Hh by (simp only: of_int_le_iff)
        ultimately show ?thesis by linarith
      next
        assume "H < ?h"
        then have "H + 1 \<le> ?h" by simp
        then have "(of_int (H + 1) :: rat) \<le> of_int ?h" by (simp only: of_int_le_iff)
        with qb(1) show ?thesis by simp
      qed
      moreover have "0 < of_int ?h + ?q"
      proof -
        have "(0::rat) \<le> of_int ?h" using hb by simp
        moreover have "0 \<le> ?q" by (rule qb(1))
        moreover have "0 < ?q \<or> 0 < ?h"
        proof (cases "0 < ?n")
          case True
          then have "1 / 2 ^ 42 < ?q" by (rule qb(3))
          then show ?thesis by simp
        next
          case False
          with nb have "?n = 0" by simp
          with dd have "d = ?h * Hour" by simp
          with d(1) have "0 < ?h * Hour" by simp
          then have "0 < ?h" by (simp add: Hour_def zero_less_mult_iff)
          then show ?thesis ..
        qed
        ultimately show ?thesis by auto
      qed
      ultimately show ?thesis using True by (intro f64_round_gt_small) simp_all
    next
      case False
      then have "of_int 4096 \<le> of_int ?h + ?q" by simp
      then have "of_int 4096 \<le> f64_round (of_int ?h + ?q)"
        by (rule f64_round_ge_int) simp
      moreover have "(of_int H :: rat) < of_int 4096" using H by (simp only: of_int_less_iff)
      ultimately show ?thesis by linarith
    qed
    with False show ?thesis by (simp add: eq)
  qed
qed

lemma Hours_rounds_nanosecond_away: "Hours (4096 * Hour + 1) = 4096"
  by (simp add: f64_eval)

section \<open>The alert thresholds\<close>

lemma Sub_pos:
  assumes "now < t"
  shows "0 < Sub t now" and "Sub t now \<le> maxDuration" and "Sub t now \<le> t - now"
  using assms by (auto simp: Sub_def Let_def maxDuration_def minDuration_def)

lemma Hours_le_of_le:
  assumes d: "0 < d" "d \<le> maxDuration" and le: "d \<le> H * Hour"
  shows "Hours d \<le> of_int H"
proof (cases "H < 4096")
  case True
  then show ?thesis using Hours_le_exact [OF d True] le by simp
next
  case False
  show ?thesis
  proof (cases "2562048 \<le> H")
    case True
    then have "(of_int 2562048 :: rat) \<le> of_int H" by (simp only: of_int_le_iff)
    with Hours_bounds(2) [OF d] show ?thesis by simp
  next
    case False
    let ?h = "d div Hour" and ?n = "d mod Hour"
    let ?q = "f64_round (of_int ?n / 3600000000000)"
    note nb = mod_Hour_bounds [of d]
    note qb = frac_bounds [OF nb]
    have eq: "Hours d = f64_round (of_int ?h + ?q)" by (rule Hours_pos_eq [OF d])
    have dd: "d = ?h * Hour + ?n" by simp
    have "of_int ?h + ?q \<le> of_int H"
    proof (cases "?n = 0")
      case True
      with dd have "d = ?h * Hour" by simp
      with le have "?h * Hour \<le> H * Hour" by simp
      then have "?h \<le> H" by (simp add: Hour_def)
      then have "(of_int ?h :: rat) \<le> of_int H" by (simp only: of_int_le_iff)
      moreover have "?q = 0" using True by (simp add: f64_round_0)
      ultimately show ?thesis by simp
    next
      case False
      with nb have "0 < ?n" by simp
      with dd have "?h * Hour < d" by linarith
      with le have "?h * Hour < H * Hour" by simp
      then have "?h + 1 \<le> H" by (simp add: Hour_def)
      then have "(of_int (?h + 1) :: rat) \<le> of_int H" by (simp only: of_int_le_iff)
      with qb(2) show ?thesis by simp
    qed
    moreover have "\<bar>H\<bar> < 2 ^ 53"
    proof -
      have "0 < H * Hour" using le d by simp
      then have "0 < H" by (simp add: Hour_def zero_less_mult_iff)
      with False show ?thesis by simp
    qed
    ultimately have "f64_round (of_int ?h + ?q) \<le> of_int H" by (rule f64_round_le_int)
    then show ?thesis by (simp add: eq)
  qed
qed

lemma due_iff:
  "(After t now \<and> (let h = hoursUntil t now in h \<le> float64 H \<and> h > 0)) =
   (now < t \<and> 0 < hoursUntil t now \<and> hoursUntil t now \<le> of_int H)"
proof (cases "now < t")
  case False
  then show ?thesis by (simp add: After_def)
next
  case True
  note d = Sub_pos(1,2) [OF True]
  have "\<bar>hoursUntil t now\<bar> \<le> 2562048"
    using Hours_bounds [OF d] by (simp add: hoursUntil_def)
  then have "(hoursUntil t now \<le> float64 H) = (hoursUntil t now \<le> of_int H)"
    by (rule le_float64_iff)
  then show ?thesis using True by (auto simp: After_def Let_def)
qed

lemma due_at_threshold:
  assumes "0 < H" and "t = now + H * Hour"
  shows "After t now \<and> (let h = hoursUntil t now in h \<le> float64 H \<and> h > 0)"
proof -
  have lt: "now < t" using assms by (simp add: Hour_def)
  note d = Sub_pos [OF lt]
  have "Sub t now \<le> H * Hour" using d(3) assms by simp
  then have "hoursUntil t now \<le> of_int H"
    unfolding hoursUntil_def by (rule Hours_le_of_le [OF d(1,2)])
  moreover have "0 < hoursUntil t now"
    using Hours_bounds(1) [OF d(1,2)] by (simp add: hoursUntil_def)
  ultimately show ?thesis unfolding due_iff using lt by simp
qed

lemma not_due_at_now: "\<not> (After now now \<and> (let h = hoursUntil now now in h \<le> float64 H \<and> h > 0))"
  by (simp add: After_def)

text \<open>
  In nanoseconds: for a threshold below 4096 hours an alert is due iff the boundary lies in
  the future by at most that many hours, whatever the two instants are (a difference
  beyond the largest duration saturates, and is far above the threshold either way).
\<close>

lemma due_exact:
  assumes "H < 4096"
  shows "(After t now \<and> (let h = hoursUntil t now in h \<le> float64 H \<and> h > 0)) =
         (0 < t - now \<and> t - now \<le> H * Hour)"
proof (cases "now < t")
  case False
  then show ?thesis by (simp add: After_def)
next
  case True
  note d = Sub_pos [OF True]
  have e: "(hoursUntil t now \<le> of_int H) = (Sub t now \<le> H * Hour)"
    unfolding hoursUntil_def by (rule Hours_le_exact [OF d(1,2) assms])
  have s: "(Sub t now \<le> H * Hour) = (t - now \<le> H * Hour)"
  proof (cases "t - now \<le> maxDuration")
    case True
    then have "Sub t now = t - now" using \<open>now < t\<close>
      by (simp add: Sub_def Let_def minDuration_def)
    then show ?thesis by simp
  next
    case False
    then have m: "Sub t now = maxDuration" by (simp add: Sub_def Let_def)
    have "H * Hour \<le> 4095 * Hour" using assms by (simp add: Hour_def)
    then have "H * Hour < maxDuration" by (simp add: Hour_def maxDuration_def)
    with False m show ?thesis by simp
  qed
  have "0 < hoursUntil t now" using Hours_bounds(1) [OF d(1,2)] by (simp add: hoursUntil_def)
  then show ?thesis unfolding due_iff using True e s by simp
qed

text \<open>
  The tests of \<open>checkProposal\<close> are the law \<open>withinLead\<close>; at the boundaries, a lead time
  away is within the lead and now itself is not; below 4096 hours the law is the exact
  comparison of the two instants.
\<close>

lemma startAlertDue_withinLead:
  "startAlertDue alerts proposal now =
     withinLead (VotingStart proposal) now (HoursBeforeStart alerts)"
  unfolding startAlertDue_def withinLead_def by (rule due_iff)

lemma endAlertDue_withinLead:
  "endAlertDue alerts proposal now =
     withinLead (VotingEnd proposal) now (HoursBeforeEnd alerts)"
  unfolding endAlertDue_def withinLead_def by (rule due_iff)

lemma withinLead_at_lead: "0 < lead \<Longrightarrow> withinLead (now + lead * Hour) now lead"
  using due_at_threshold [of lead "now + lead * Hour" now]
  unfolding withinLead_def due_iff by simp

lemma withinLead_not_now: "\<not> withinLead now now lead"
  by (simp add: withinLead_def)

lemma withinLead_exact:
  "lead < 4096 \<Longrightarrow>
   withinLead boundary now lead = (0 < boundary - now \<and> boundary - now \<le> lead * Hour)"
  using due_exact [of lead boundary now] unfolding withinLead_def due_iff by simp

text \<open>
  The first two scenarios of the specification: a start five hours away is due with a lead
  time of 24 hours and not with one of 4 hours.
\<close>

lemmas example_defs = exampleEnv_def failingBotEnv_def exampleService_def exampleNotifier_def
  exampleProposal_def exampleAlerts_def exampleNow_def exampleWorld_def exampleNetwork_def
  exampleParse_def exampleRaw_def exampleMessage_def fetchedProposal_def NewClient_def

lemmas time_eval = startAlertDue_def endAlertDue_def hoursUntil_def After_def Sub_def
  maxDuration_def minDuration_def f64_eval

lemma scenario_five_hours_ahead:
  "startAlertDue exampleAlerts
     (exampleProposal (exampleNow + 5 * Hour) (exampleNow + 168 * Hour)) exampleNow
   \<and> \<not> startAlertDue (exampleAlerts\<lparr>HoursBeforeStart := 4\<rparr>)
        (exampleProposal (exampleNow + 5 * Hour) (exampleNow + 168 * Hour)) exampleNow"
  by (simp add: time_eval example_defs)

section \<open>The notifier\<close>

text \<open>
  Each channel's send records its delivery whether or not it succeeds, so the world after
  \<open>SendNotification\<close> holds one attempt per enabled channel.
\<close>

lemmas send_eval = SendNotification_def sendTelegramNotification_def sendSlackNotification_def

lemma sendTelegramNotification_world:
  "snd (sendTelegramNotification env n tbot msg w) =
     w\<lparr>deliveries := deliveries w @ [TelegramSend tbot (telegramChatID n) (formatTelegramMessage msg)]\<rparr>"
  by (simp add: sendTelegramNotification_def Let_def split: option.splits)

lemma sendSlackNotification_world:
  "snd (sendSlackNotification env n msg w) =
     w\<lparr>deliveries := deliveries w @ [SlackPost (WebhookURL (slack n)) (formatSlackMessage msg)]\<rparr>"
  by (simp add: sendSlackNotification_def Let_def split: sum.splits)

lemma SendNotification_world:
  "snd (SendNotification env n msg w) =
     w\<lparr>deliveries := deliveries w @ telegramAttempt n msg @ slackAttempt n msg\<rparr>"
proof (cases "telegram n")
  case None
  then show ?thesis
    using sendSlackNotification_world [of env n msg w]
    by (cases "sendSlackNotification env n msg w")
       (auto simp: SendNotification_def telegramAttempt_def slackAttempt_def split: option.splits)
next
  case (Some tbot)
  obtain r1 w1 where t: "sendTelegramNotification env n tbot msg w = (r1, w1)" by force
  then have w1: "w1 = w\<lparr>deliveries := deliveries w @
      [TelegramSend tbot (telegramChatID n) (formatTelegramMessage msg)]\<rparr>"
    using sendTelegramNotification_world [of env n tbot msg w] by simp
  obtain r2 w2 where s: "sendSlackNotification env n msg w1 = (r2, w2)" by force
  then have w2: "w2 = w1\<lparr>deliveries := deliveries w1 @
      [SlackPost (WebhookURL (slack n)) (formatSlackMessage msg)]\<rparr>"
    using sendSlackNotification_world [of env n msg w1] by simp
  show ?thesis
    using Some t s w2
    by (auto simp: SendNotification_def telegramAttempt_def slackAttempt_def w1 split: option.splits)
qed

lemma SendNotification_result:
  "fst (SendNotification env n msg w) =
     firstError (telegramFailure env n msg w) (slackFailure env n msg w)"
proof (cases "telegram n")
  case None
  then show ?thesis
    by (cases "sendSlackNotification env n msg w")
       (auto simp: SendNotification_def telegramFailure_def slackFailure_def firstError_def
          telegramAttempt_def split: option.splits)
next
  case (Some tbot)
  obtain r1 w1 where t: "sendTelegramNotification env n tbot msg w = (r1, w1)" by force
  then have w1: "w1 = w\<lparr>deliveries := deliveries w @
      [TelegramSend tbot (telegramChatID n) (formatTelegramMessage msg)]\<rparr>"
    using sendTelegramNotification_world [of env n tbot msg w] by simp
  obtain r2 w2 where s: "sendSlackNotification env n msg w1 = (r2, w2)" by force
  show ?thesis
    using Some t s
    by (auto simp: SendNotification_def telegramFailure_def slackFailure_def firstError_def
          telegramAttempt_def w1 [symmetric] split: option.splits)
qed

text \<open>
  Claim C2. For every notification message the notifier invokes the send of every enabled
  channel: the deliveries attempted are those of all enabled channels, whatever each send
  answers, so a failure of one channel is captured and does not keep the other from being
  attempted. The call returns the first error encountered (the chat bot's before the
  webhook's) when a channel fails, and succeeds exactly when none does.
\<close>

theorem SendNotification_attempts_every_enabled_channel:
  "deliveries (snd (SendNotification env n msg w)) =
     deliveries w @ telegramAttempt n msg @ slackAttempt n msg
   \<and> fst (SendNotification env n msg w) =
     firstError (telegramFailure env n msg w) (slackFailure env n msg w)
   \<and> (fst (SendNotification env n msg w) = None) =
     (telegramFailure env n msg w = None \<and> slackFailure env n msg w = None)"
  by (simp add: SendNotification_world SendNotification_result firstError_def split: option.splits)

text \<open>Two channels, the bot failing: both are attempted, the bot's error is returned.\<close>

theorem SendNotification_attempts_every_enabled_channel_witness:
  "deliveries (snd (SendNotification (failingBotEnv [])
      (exampleNotifier (Some (TelegramBot ''token'')) True) exampleMessage exampleWorld))
    = [TelegramSend (TelegramBot ''token'') 42 (formatTelegramMessage exampleMessage),
       SlackPost ''https://hooks.example/T'' (formatSlackMessage exampleMessage)]
   \<and> fst (SendNotification (failingBotEnv [])
      (exampleNotifier (Some (TelegramBot ''token'')) True) exampleMessage exampleWorld)
    = Some (Wrap ''telegram'' (Wrap ''failed to send message'' (Error ''bot down'')))"
  using SendNotification_attempts_every_enabled_channel [of "failingBotEnv []"
      "exampleNotifier (Some (TelegramBot ''token'')) True" exampleMessage exampleWorld]
  by (simp add: telegramAttempt_def slackAttempt_def telegramFailure_def slackFailure_def
      firstError_def sendTelegramNotification_def sendSlackNotification_def
      failingBotEnv_def exampleEnv_def exampleNotifier_def exampleWorld_def)

text \<open>
  Claim C10. When no channel is enabled (no chat bot configured, webhook disabled),
  sending any message returns success and attempts no delivery: the world is unchanged.
\<close>

theorem SendNotification_no_channel:
  "telegram n = None \<and> \<not> SlackEnabled (slack n) \<longrightarrow> SendNotification env n msg w = (None, w)"
  by (simp add: SendNotification_def)

theorem SendNotification_no_channel_witness:
  "telegram (exampleNotifier None False) = None
   \<and> \<not> SlackEnabled (slack (exampleNotifier None False))
   \<and> SendNotification (failingBotEnv []) (exampleNotifier None False) exampleMessage exampleWorld
      = (None, exampleWorld)"
  using SendNotification_no_channel [of "exampleNotifier None False" "failingBotEnv []"
      exampleMessage exampleWorld]
  by (simp add: exampleNotifier_def)

text \<open>
  A notifier built from a configuration with both channels disabled is such a notifier.
\<close>

lemma NewNotifier_disabled:
  "\<not> TelegramEnabled (Telegram cfg) \<Longrightarrow>
   NewNotifier env cfg = Inr \<lparr>telegram = None, telegramChatID = 0, slack = Slack cfg\<rparr>"
  by (simp add: NewNotifier_def)

text \<open>
  Claim C6 as stated (the webhook send succeeds iff the response status is in the 2xx
  range) fails: a response with status 204 is reported as an error.
\<close>

theorem webhook_204_is_an_error:
  "(200::int) \<le> 204 \<and> (204::int) < 300
   \<and> httpPost (statusEnv 204) (deliveries exampleWorld)
      (WebhookURL (slack (exampleNotifier None True))) (formatSlackMessage exampleMessage) = Inr 204
   \<and> fst (sendSlackNotification (statusEnv 204) (exampleNotifier None True) exampleMessage exampleWorld)
      = Some (Error ''unexpected status code: 204'')"
  by (simp add: sendSlackNotification_def statusEnv_def exampleEnv_def exampleNotifier_def
      fmt_d_def decimal.simps digitChar_def)

text \<open>
  Claim C6, amended. The webhook send succeeds iff the request is answered with status
  200 exactly; every other answer is reported as an error, in particular every status
  outside the 2xx range.
\<close>

theorem webhook_succeeds_iff_200:
  "(fst (sendSlackNotification env n msg w) = None) =
     (httpPost env (deliveries w) (WebhookURL (slack n)) (formatSlackMessage msg) = Inr 200)
   \<and> (\<forall>status. httpPost env (deliveries w) (WebhookURL (slack n)) (formatSlackMessage msg) = Inr status
          \<and> (status < 200 \<or> 300 \<le> status)
        \<longrightarrow> fst (sendSlackNotification env n msg w)
            = Some (Error (''unexpected status code: '' @ fmt_d status)))"
  by (auto simp: sendSlackNotification_def Let_def split: sum.splits)

theorem webhook_succeeds_iff_200_witness:
  "httpPost (statusEnv 404) (deliveries exampleWorld)
      (WebhookURL (slack (exampleNotifier None True))) (formatSlackMessage exampleMessage) = Inr 404
   \<and> fst (sendSlackNotification (statusEnv 404) (exampleNotifier None True) exampleMessage exampleWorld)
      = Some (Error ''unexpected status code: 404'')
   \<and> fst (sendSlackNotification (statusEnv 200) (exampleNotifier None True) exampleMessage exampleWorld)
      = None"
  using webhook_succeeds_iff_200 [of "statusEnv 404" "exampleNotifier None True" exampleMessage exampleWorld]
    webhook_succeeds_iff_200 [of "statusEnv 200" "exampleNotifier None True" exampleMessage exampleWorld]
  by (simp add: statusEnv_def exampleEnv_def fmt_d_def decimal.simps digitChar_def)

section \<open>The alerts of one proposal\<close>

text \<open>
  What \<open>checkProposal\<close> hands to the channels: the start alert when the start is within
  its lead time, then, unless that send reported an error, the end alert when the end is
  within its lead time.
\<close>

lemma SendNotification_pair:
  "SendNotification env n msg w =
     (fst (SendNotification env n msg w), w\<lparr>deliveries := deliveries w @ alertAttempts n msg\<rparr>)"
  using SendNotification_world [of env n msg w]
  by (simp add: alertAttempts_def prod_eq_iff)

lemma checkProposal_deliveries:
  fixes env s proposal networkConfig w
  defines "now \<equiv> timeNow env (clockReads w)"
  defines "w1 \<equiv> w\<lparr>clockReads := Suc (clockReads w)\<rparr>"
  defines "startDue \<equiv> withinLead (VotingStart proposal) now (HoursBeforeStart (Alerts (svc_config s)))"
  defines "endDue \<equiv> withinLead (VotingEnd proposal) now (HoursBeforeEnd (Alerts (svc_config s)))"
  defines "sm \<equiv> startMessage proposal networkConfig now"
  defines "em \<equiv> endMessage proposal networkConfig now"
  shows "deliveries (snd (checkProposal env s proposal networkConfig w)) =
     deliveries w
     @ (if startDue then alertAttempts (notifier s) sm else [])
     @ (if endDue \<and> \<not> (startDue \<and> fst (SendNotification env (notifier s) sm w1) \<noteq> None)
        then alertAttempts (notifier s) em else [])"
proof -
  let ?n = "notifier s"
  have s1: "SendNotification env ?n sm w1 =
      (fst (SendNotification env ?n sm w1), w1\<lparr>deliveries := deliveries w1 @ alertAttempts ?n sm\<rparr>)"
    by (rule SendNotification_pair)
  have s2: "SendNotification env ?n em w' =
      (fst (SendNotification env ?n em w'), w'\<lparr>deliveries := deliveries w' @ alertAttempts ?n em\<rparr>)"
    for w'
    by (rule SendNotification_pair)
  have d1: "deliveries w1 = deliveries w" by (simp add: w1_def)
  show ?thesis
  proof (cases startDue)
    case False
    then show ?thesis
      using s2 [of w1] d1
      by (cases "fst (SendNotification env ?n em w1)")
         (simp_all add: checkProposal_def time_Now_def startAlertDue_withinLead
            endAlertDue_withinLead startDue_def [symmetric] endDue_def [symmetric]
            now_def [symmetric] w1_def [symmetric] em_def [symmetric])
  next
    case True
    show ?thesis
    proof (cases "fst (SendNotification env ?n sm w1)")
      case (Some e)
      then show ?thesis
        using True s1 d1
        by (simp add: checkProposal_def time_Now_def startAlertDue_withinLead
            endAlertDue_withinLead startDue_def [symmetric] endDue_def [symmetric]
            now_def [symmetric] w1_def [symmetric] sm_def [symmetric] em_def [symmetric])
    next
      case None
      let ?w2 = "w1\<lparr>deliveries := deliveries w1 @ alertAttempts ?n sm\<rparr>"
      from None s1 have s1': "SendNotification env ?n sm w1 = (None, ?w2)" by simp
      show ?thesis
        using True None s1' s2 [of ?w2] d1
        by (cases "fst (SendNotification env ?n em ?w2)")
           (simp_all add: checkProposal_def time_Now_def startAlertDue_withinLead
              endAlertDue_withinLead startDue_def [symmetric] endDue_def [symmetric]
              now_def [symmetric] w1_def [symmetric] sm_def [symmetric] em_def [symmetric])
    qed
  qed
qed

text \<open>
  Claim C1 as stated (a start alert is generated iff the time until the voting start is
  greater than zero and at most the configured number of hours) fails on the true
  distance: with a lead time of 4096 hours, a proposal whose voting starts 4096 hours and
  one nanosecond from now gets its start alert. \<open>checkProposal\<close> compares the float64
  \<open>VotingStart.Sub(now).Hours()\<close>, and from 4096 hours on that number no longer tells one
  nanosecond more from the whole hour.
\<close>

theorem lead_of_4096_hours_fires_a_nanosecond_late:
  "HoursBeforeStart (Alerts (svc_config longLeadService)) = 4096
   \<and> 4096 * Hour < (exampleNow + 4096 * Hour + 1) - exampleNow
   \<and> deliveries (snd (checkProposal (exampleEnv []) longLeadService
        (exampleProposal (exampleNow + 4096 * Hour + 1) (exampleNow + 5000 * Hour))
        exampleNetwork exampleWorld))
      = [TelegramSend (TelegramBot ''token'') 42
           (formatTelegramMessage
              (startMessage
                 (exampleProposal (exampleNow + 4096 * Hour + 1) (exampleNow + 5000 * Hour))
                 exampleNetwork exampleNow))]"
  by (simp add: checkProposal_def time_Now_def time_eval send_eval longLeadService_def example_defs)

text \<open>
  Claim C1, amended. \<open>checkProposal\<close> attempts, on every enabled channel, first the start
  alert, exactly when the voting start is after now and the hours until it, as the float64
  \<open>VotingStart.Sub(now).Hours()\<close>, are greater than zero and at most
  \<open>HoursBeforeStart\<close>; and, whenever the start alert is not due or was sent without error,
  next the end alert, exactly when the same holds of the voting end and \<open>HoursBeforeEnd\<close>,
  and nothing else. For a lead time below 4096 hours the condition is the one on the true
  distance, \<open>0 < boundary - now \<le> lead\<close> hours. A boundary exactly the lead time away
  fires; a boundary equal to now does not.
\<close>

theorem checkProposal_alert_law:
  "(\<exists>rest. deliveries (snd (checkProposal env s proposal networkConfig w)) =
      deliveries w
      @ (if withinLead (VotingStart proposal) (timeNow env (clockReads w))
              (HoursBeforeStart (Alerts (svc_config s)))
         then alertAttempts (notifier s)
                (startMessage proposal networkConfig (timeNow env (clockReads w)))
         else [])
      @ rest)
   \<and> ((withinLead (VotingStart proposal) (timeNow env (clockReads w))
          (HoursBeforeStart (Alerts (svc_config s)))
        \<longrightarrow> fst (SendNotification env (notifier s)
                  (startMessage proposal networkConfig (timeNow env (clockReads w)))
                  (w\<lparr>clockReads := Suc (clockReads w)\<rparr>)) = None)
      \<longrightarrow> deliveries (snd (checkProposal env s proposal networkConfig w)) =
          deliveries w
          @ (if withinLead (VotingStart proposal) (timeNow env (clockReads w))
                  (HoursBeforeStart (Alerts (svc_config s)))
             then alertAttempts (notifier s)
                    (startMessage proposal networkConfig (timeNow env (clockReads w)))
             else [])
          @ (if withinLead (VotingEnd proposal) (timeNow env (clockReads w))
                  (HoursBeforeEnd (Alerts (svc_config s)))
             then alertAttempts (notifier s)
                    (endMessage proposal networkConfig (timeNow env (clockReads w)))
             else []))
   \<and> (lead < 4096 \<longrightarrow>
        withinLead boundary now lead = (0 < boundary - now \<and> boundary - now \<le> lead * Hour))
   \<and> (0 < lead \<longrightarrow> withinLead (now + lead * Hour) now lead)
   \<and> \<not> withinLead now now lead"
proof -
  note d = checkProposal_deliveries [of env s proposal networkConfig w]
  have 1: "\<exists>rest. deliveries (snd (checkProposal env s proposal networkConfig w)) =
      deliveries w
      @ (if withinLead (VotingStart proposal) (timeNow env (clockReads w))
              (HoursBeforeStart (Alerts (svc_config s)))
         then alertAttempts (notifier s)
                (startMessage proposal networkConfig (timeNow env (clockReads w)))
         else [])
      @ rest"
    unfolding d by blast
  have 2: "deliveries (snd (checkProposal env s proposal networkConfig w)) =
          deliveries w
          @ (if withinLead (VotingStart proposal) (timeNow env (clockReads w))
                  (HoursBeforeStart (Alerts (svc_config s)))
             then alertAttempts (notifier s)
                    (startMessage proposal networkConfig (timeNow env (clockReads w)))
             else [])
          @ (if withinLead (VotingEnd proposal) (timeNow env (clockReads w))
                  (HoursBeforeEnd (Alerts (svc_config s)))
             then alertAttempts (notifier s)
                    (endMessage proposal networkConfig (timeNow env (clockReads w)))
             else [])"
    if "withinLead (VotingStart proposal) (timeNow env (clockReads w))
          (HoursBeforeStart (Alerts (svc_config s)))
        \<longrightarrow> fst (SendNotification env (notifier s)
                  (startMessage proposal networkConfig (timeNow env (clockReads w)))
                  (w\<lparr>clockReads := Suc (clockReads w)\<rparr>)) = None"
    unfolding d using that by auto
  have 3: "withinLead boundary now lead = (0 < boundary - now \<and> boundary - now \<le> lead * Hour)"
    if "lead < 4096"
    using that by (rule withinLead_exact)
  have 4: "withinLead (now + lead * Hour) now lead" if "0 < lead"
    using that by (rule withinLead_at_lead)
  show ?thesis using 1 2 3 4 withinLead_not_now [of now lead] by blast
qed

theorem checkProposal_alert_law_witness:
  "deliveries (snd (checkProposal (exampleEnv [])
        (exampleService (exampleNotifier (Some (TelegramBot ''token'')) False)
           [(''babylon'', exampleNetwork)])
        (exampleProposal (exampleNow + 5 * Hour) (exampleNow + 25 * Hour))
        exampleNetwork exampleWorld))
      = [TelegramSend (TelegramBot ''token'') 42
           (formatTelegramMessage
              (startMessage (exampleProposal (exampleNow + 5 * Hour) (exampleNow + 25 * Hour))
                 exampleNetwork exampleNow))]
   \<and> (24::int) < 4096
   \<and> withinLead (exampleNow + 5 * Hour) exampleNow 24
   \<and> \<not> withinLead (exampleNow + 25 * Hour) exampleNow 24
   \<and> withinLead (exampleNow + 24 * Hour) exampleNow 24
   \<and> \<not> withinLead exampleNow exampleNow 24"
proof -
  let ?n = "exampleNotifier (Some (TelegramBot ''token'')) False"
  let ?s = "exampleService ?n [(''babylon'', exampleNetwork)]"
  let ?p = "exampleProposal (exampleNow + 5 * Hour) (exampleNow + 25 * Hour)"
  let ?env = "exampleEnv []"
  note law = checkProposal_alert_law [of ?env ?s ?p exampleNetwork exampleWorld]
  have a: "withinLead (exampleNow + 5 * Hour) exampleNow 24"
    using law [of 24 "exampleNow + 5 * Hour" exampleNow] by (simp add: Hour_def)
  have b: "\<not> withinLead (exampleNow + 25 * Hour) exampleNow 24"
    using law [of 24 "exampleNow + 25 * Hour" exampleNow] by (simp add: Hour_def)
  have c: "withinLead (exampleNow + 24 * Hour) exampleNow 24"
    using law [of 24 "exampleNow + 5 * Hour" exampleNow] by simp
  have e: "\<not> withinLead exampleNow exampleNow 24"
    using law [of 24 "exampleNow + 5 * Hour" exampleNow] by blast
  have t: "timeNow ?env (clockReads exampleWorld) = exampleNow"
    by (simp add: exampleEnv_def)
  have l: "HoursBeforeStart (Alerts (svc_config ?s)) = 24" "HoursBeforeEnd (Alerts (svc_config ?s)) = 24"
    by (simp_all add: exampleService_def exampleAlerts_def)
  have v: "VotingStart ?p = exampleNow + 5 * Hour" "VotingEnd ?p = exampleNow + 25 * Hour"
    by (simp_all add: exampleProposal_def)
  have nt: "notifier ?s = ?n" by (simp add: exampleService_def)
  have ok: "fst (SendNotification ?env ?n (startMessage ?p exampleNetwork exampleNow)
                  (exampleWorld\<lparr>clockReads := Suc (clockReads exampleWorld)\<rparr>)) = None"
    by (simp add: send_eval exampleEnv_def exampleNotifier_def)
  have at: "alertAttempts ?n (startMessage ?p exampleNetwork exampleNow)
      = [TelegramSend (TelegramBot ''token'') 42
           (formatTelegramMessage (startMessage ?p exampleNetwork exampleNow))]"
    by (simp add: alertAttempts_def telegramAttempt_def slackAttempt_def exampleNotifier_def)
  have w0: "deliveries exampleWorld = []" by (simp add: exampleWorld_def)
  have "deliveries (snd (checkProposal ?env ?s ?p exampleNetwork exampleWorld))
      = [TelegramSend (TelegramBot ''token'') 42
           (formatTelegramMessage (startMessage ?p exampleNetwork exampleNow))]"
    using law [of 24 "exampleNow + 5 * Hour" exampleNow]
    unfolding t l v nt using a b ok at w0 by simp
  with a b c e show ?thesis by simp
qed


section \<open>The proposal fetch\<close>

subsection \<open>Scanning the identifier\<close>

lemmas scan_eval = Sscanf_d_def SkipSpace.simps isDigit_def digitsValue_def newline_def

lemma SkipSpace_digit:
  assumes "isDigit c"
  shows "SkipSpace (c # cs) = Inr (c # cs)"
proof -
  have "48 \<le> (of_char c :: nat)" "(of_char c :: nat) \<le> 57"
    using assms by (simp_all add: isDigit_def)
  moreover from this have "c \<noteq> newline" by (auto simp: newline_def)
  ultimately show ?thesis by (subst SkipSpace.simps) auto
qed

text \<open>
  A decimal numeral below \<open>2\<^sup>6\<^sup>4\<close> scans to its value, whatever follows its digits; an
  identifier that starts with a byte that is neither a digit nor white space is rejected.
\<close>

lemma Sscanf_d_numeral:
  assumes "ds \<noteq> []" and "list_all isDigit ds" and "digitsValue ds < 2 ^ 64"
    and "rest = [] \<or> \<not> isDigit (hd rest)"
  shows "Sscanf_d (ds @ rest) = Inr (word_of_nat (digitsValue ds))"
proof -
  obtain c cs where ds: "ds = c # cs" using assms(1) by (cases ds) auto
  then have "isDigit c" using assms(2) by simp
  then have s: "SkipSpace (ds @ rest) = Inr (ds @ rest)"
    using SkipSpace_digit [of c "cs @ rest"] by (simp add: ds)
  have t: "takeWhile isDigit (ds @ rest) = ds"
  proof (cases rest)
    case Nil
    then show ?thesis using assms(2) by (simp add: list_all_iff)
  next
    case (Cons r rs)
    then have "\<not> isDigit r" using assms(4) by simp
    then show ?thesis using assms(2) Cons
      by (simp add: list_all_iff takeWhile_append2)
  qed
  show ?thesis using assms(1,3) by (simp add: Sscanf_d_def s t Let_def)
qed

lemma Sscanf_d_rejects:
  assumes "\<not> isDigit c" and "c \<noteq> newline" and "spaceWidth (map of_char (c # cs)) = 0"
  shows "Sscanf_d (c # cs) = Inl (Error ''expected integer'')"
proof -
  have "SkipSpace (c # cs) = Inr (c # cs)"
    using assms(2,3) by (subst SkipSpace.simps) simp
  then show ?thesis using assms(1) by (simp add: Sscanf_d_def)
qed

lemma Sscanf_d_examples:
  "Sscanf_d ''42'' = Inr 42"
  "Sscanf_d '' 7'' = Inr 7"
  "Sscanf_d ''abc'' = Inl (Error ''expected integer'')"
  "Sscanf_d [] = Inl (Error ''unexpected EOF'')"
  "Sscanf_d ''18446744073709551616'' = Inl (Error ''value out of range'')"
  by (simp_all add: scan_eval)

subsection \<open>The loop as a filter\<close>

lemma votingLoop_step:
  "votingLoop env c (r # rest) acc =
     votingLoop env c rest (if retained env r then acc @ [toProposal env c r] else acc)"
  by (auto simp: retained_def isVoting_def parses_def toProposal_def Let_def
      split: sum.splits)

lemma votingLoop_eq:
  "votingLoop env c raws acc = acc @ map (toProposal env c) (filter (retained env) raws)"
proof (induction raws arbitrary: acc)
  case Nil
  show ?case by simp
next
  case (Cons r rest)
  show ?case by (simp only: votingLoop_step Cons.IH) simp
qed

lemma GetVotingProposals_fetched:
  "fetched env c raws \<Longrightarrow>
   GetVotingProposals env c = Inr (map (toProposal env c) (filter (retained env) raws))"
  by (auto simp: fetched_def GetVotingProposals_def Let_def votingLoop_eq split: sum.splits)

lemma excluded_not_retained: "excluded env r \<Longrightarrow> \<not> retained env r"
  by (auto simp: excluded_def retained_def parses_def)

lemmas fetch_eval = GetVotingProposals_def fetched_def makeRequest_def retained_def isVoting_def
  parses_def toProposal_def

text \<open>
  Claim C7 as stated (a voting-period proposal whose identifier is non-numeric is
  excluded) fails: the identifier \<open>12abc\<close> is not a numeral, the scan reads its leading
  digits, and the proposal is returned with the identifier 12.
\<close>

theorem identifier_with_numeric_prefix_is_retained:
  "\<not> list_all isDigit ''12abc''
   \<and> Sscanf_d ''12abc'' = Inr 12
   \<and> GetVotingProposals
        (exampleEnv [exampleRaw ''12abc'' [] ''PROPOSAL_STATUS_VOTING_PERIOD'' ''2025-01-01T05:00:00Z''])
        (NewClient exampleNetwork)
      = Inr [fetchedProposal 12 ''Proposal 12abc'']"
  by (simp add: fetch_eval example_defs scan_eval)

text \<open>
  The scan rejects an identifier exactly when, after the leading white space, a newline
  or no decimal digit comes first, or the leading digits denote a number that does not
  fit 64 bits.
\<close>

lemma Sscanf_d_fails_iff:
  "isl (Sscanf_d s) =
     (case SkipSpace s of
        Inl e \<Rightarrow> True
      | Inr rest \<Rightarrow>
          takeWhile isDigit rest = [] \<or> 2 ^ 64 \<le> digitsValue (takeWhile isDigit rest))"
  by (auto simp: Sscanf_d_def Let_def split: sum.splits)

text \<open>
  Claim C7, amended. For every fetched batch, a voting-period proposal whose start or end
  timestamp fails to parse as RFC3339, or whose identifier the scan rejects (it does not
  start, leading white space aside, with a decimal number that fits 64 bits), is excluded
  from the result without aborting the fetch, and all sibling proposals in the same batch
  are still returned: the result is that of the batch without the proposal.
\<close>

theorem unparsable_proposal_skipped:
  assumes "fetched env c (before @ r # after)" and "excluded env r"
  shows "GetVotingProposals env c = Inr (votingLoop env c (before @ after) [])"
  using assms
  by (simp add: GetVotingProposals_fetched votingLoop_eq excluded_not_retained)

theorem unparsable_proposal_skipped_witness:
  "fetched
     (exampleEnv [exampleRaw ''7'' [] ''PROPOSAL_STATUS_VOTING_PERIOD'' ''2025-01-01T05:00:00Z'',
                  exampleRaw ''x9'' [] ''PROPOSAL_STATUS_VOTING_PERIOD'' ''2025-01-01T05:00:00Z'',
                  exampleRaw ''10'' [] ''PROPOSAL_STATUS_VOTING_PERIOD'' ''2025-01-01T05:00:00Z''])
     (NewClient exampleNetwork)
     ([exampleRaw ''7'' [] ''PROPOSAL_STATUS_VOTING_PERIOD'' ''2025-01-01T05:00:00Z'']
      @ exampleRaw ''x9'' [] ''PROPOSAL_STATUS_VOTING_PERIOD'' ''2025-01-01T05:00:00Z''
      # [exampleRaw ''10'' [] ''PROPOSAL_STATUS_VOTING_PERIOD'' ''2025-01-01T05:00:00Z''])
   \<and> excluded
     (exampleEnv [exampleRaw ''7'' [] ''PROPOSAL_STATUS_VOTING_PERIOD'' ''2025-01-01T05:00:00Z'',
                  exampleRaw ''x9'' [] ''PROPOSAL_STATUS_VOTING_PERIOD'' ''2025-01-01T05:00:00Z'',
                  exampleRaw ''10'' [] ''PROPOSAL_STATUS_VOTING_PERIOD'' ''2025-01-01T05:00:00Z''])
     (exampleRaw ''x9'' [] ''PROPOSAL_STATUS_VOTING_PERIOD'' ''2025-01-01T05:00:00Z'')
   \<and> GetVotingProposals
     (exampleEnv [exampleRaw ''7'' [] ''PROPOSAL_STATUS_VOTING_PERIOD'' ''2025-01-01T05:00:00Z'',
                  exampleRaw ''x9'' [] ''PROPOSAL_STATUS_VOTING_PERIOD'' ''2025-01-01T05:00:00Z'',
                  exampleRaw ''10'' [] ''PROPOSAL_STATUS_VOTING_PERIOD'' ''2025-01-01T05:00:00Z''])
     (NewClient exampleNetwork)
     = Inr [fetchedProposal 7 ''Proposal 7'', fetchedProposal 10 ''Proposal 10'']"
proof -
  let ?good7 = "exampleRaw ''7'' [] ''PROPOSAL_STATUS_VOTING_PERIOD'' ''2025-01-01T05:00:00Z''"
  let ?bad = "exampleRaw ''x9'' [] ''PROPOSAL_STATUS_VOTING_PERIOD'' ''2025-01-01T05:00:00Z''"
  let ?good10 = "exampleRaw ''10'' [] ''PROPOSAL_STATUS_VOTING_PERIOD'' ''2025-01-01T05:00:00Z''"
  let ?env = "exampleEnv [?good7, ?bad, ?good10]"
  have f: "fetched ?env (NewClient exampleNetwork) ([?good7] @ ?bad # [?good10])"
    by (simp add: fetched_def makeRequest_def exampleEnv_def)
  have x: "excluded ?env ?bad"
    by (simp add: excluded_def isVoting_def example_defs scan_eval)
  have v: "votingLoop ?env (NewClient exampleNetwork) ([?good7] @ [?good10]) []
           = [fetchedProposal 7 ''Proposal 7'', fetchedProposal 10 ''Proposal 10'']"
    by (simp add: example_defs scan_eval)
  have "GetVotingProposals ?env (NewClient exampleNetwork)
        = Inr [fetchedProposal 7 ''Proposal 7'', fetchedProposal 10 ''Proposal 10'']"
    using unparsable_proposal_skipped [OF f x] unfolding v .
  with f x show ?thesis by blast
qed

text \<open>A batch with an unparsable start time and a rejected identifier among good ones.\<close>

lemma unparsable_proposals_example:
  "GetVotingProposals
     (exampleEnv [exampleRaw ''7'' [] ''PROPOSAL_STATUS_VOTING_PERIOD'' ''2025-01-01T05:00:00Z'',
                  exampleRaw ''8'' [] ''PROPOSAL_STATUS_VOTING_PERIOD'' ''next week'',
                  exampleRaw ''x9'' [] ''PROPOSAL_STATUS_VOTING_PERIOD'' ''2025-01-01T05:00:00Z'',
                  exampleRaw ''10'' [] ''PROPOSAL_STATUS_VOTING_PERIOD'' ''2025-01-01T05:00:00Z''])
     (NewClient exampleNetwork)
   = Inr [fetchedProposal 7 ''Proposal 7'', fetchedProposal 10 ''Proposal 10'']"
  by (simp add: fetch_eval example_defs scan_eval)

text \<open>
  Claim C8 as stated (the fetch returns exactly the raw proposals whose status is the
  voting-period code) fails: a voting-period proposal whose start time does not parse is
  not returned.
\<close>

theorem unparsable_voting_proposal_dropped:
  "isVoting (exampleRaw ''7'' [] ''PROPOSAL_STATUS_VOTING_PERIOD'' ''next week'')
   \<and> fetched
        (exampleEnv [exampleRaw ''7'' [] ''PROPOSAL_STATUS_VOTING_PERIOD'' ''next week''])
        (NewClient exampleNetwork)
        [exampleRaw ''7'' [] ''PROPOSAL_STATUS_VOTING_PERIOD'' ''next week'']
   \<and> GetVotingProposals
        (exampleEnv [exampleRaw ''7'' [] ''PROPOSAL_STATUS_VOTING_PERIOD'' ''next week''])
        (NewClient exampleNetwork)
      = Inr []"
  by (simp add: fetch_eval example_defs scan_eval)

text \<open>
  Claim C8, amended. When the request succeeds and the response decodes, the fetch returns
  only proposals whose status is the voting-period code: exactly those raw proposals with
  that status whose timestamps and identifier are read without error, in the order of the
  response; all other statuses are dropped. When no proposal is in the voting period it
  returns the empty sequence, not an error.
\<close>

theorem voting_filter:
  assumes "fetched env c raws"
  shows "GetVotingProposals env c = Inr (map (toProposal env c) (filter (retained env) raws))
    \<and> list_all (\<lambda>p. Status p = ''PROPOSAL_STATUS_VOTING_PERIOD'')
         (map (toProposal env c) (filter (retained env) raws))
    \<and> (filter isVoting raws = [] \<longrightarrow> GetVotingProposals env c = Inr [])"
proof -
  have 1: "GetVotingProposals env c = Inr (map (toProposal env c) (filter (retained env) raws))"
    using assms by (rule GetVotingProposals_fetched)
  have 2: "list_all (\<lambda>p. Status p = ''PROPOSAL_STATUS_VOTING_PERIOD'')
         (map (toProposal env c) (filter (retained env) raws))"
    by (simp add: list_all_iff retained_def isVoting_def toProposal_def)
  have 3: "filter (retained env) raws = []" if "filter isVoting raws = []"
    using that by (auto simp: filter_empty_conv retained_def)
  show ?thesis using 1 2 3 by simp
qed

theorem voting_filter_witness:
  "fetched
     (exampleEnv [exampleRaw ''7'' [] ''PROPOSAL_STATUS_VOTING_PERIOD'' ''2025-01-01T05:00:00Z'',
                  exampleRaw ''8'' [] ''PROPOSAL_STATUS_REJECTED'' ''2025-01-01T05:00:00Z'',
                  exampleRaw ''9'' ''Upgrade'' ''PROPOSAL_STATUS_VOTING_PERIOD'' ''2025-01-01T05:00:00Z''])
     (NewClient exampleNetwork)
     [exampleRaw ''7'' [] ''PROPOSAL_STATUS_VOTING_PERIOD'' ''2025-01-01T05:00:00Z'',
      exampleRaw ''8'' [] ''PROPOSAL_STATUS_REJECTED'' ''2025-01-01T05:00:00Z'',
      exampleRaw ''9'' ''Upgrade'' ''PROPOSAL_STATUS_VOTING_PERIOD'' ''2025-01-01T05:00:00Z'']
   \<and> GetVotingProposals
     (exampleEnv [exampleRaw ''7'' [] ''PROPOSAL_STATUS_VOTING_PERIOD'' ''2025-01-01T05:00:00Z'',
                  exampleRaw ''8'' [] ''PROPOSAL_STATUS_REJECTED'' ''2025-01-01T05:00:00Z'',
                  exampleRaw ''9'' ''Upgrade'' ''PROPOSAL_STATUS_VOTING_PERIOD'' ''2025-01-01T05:00:00Z''])
     (NewClient exampleNetwork)
     = Inr [fetchedProposal 7 ''Proposal 7'', fetchedProposal 9 ''Upgrade'']
   \<and> filter isVoting [exampleRaw ''8'' [] ''PROPOSAL_STATUS_REJECTED'' ''2025-01-01T05:00:00Z''] = []
   \<and> GetVotingProposals
     (exampleEnv [exampleRaw ''8'' [] ''PROPOSAL_STATUS_REJECTED'' ''2025-01-01T05:00:00Z''])
     (NewClient exampleNetwork)
     = Inr []"
proof -
  let ?raws = "[exampleRaw ''7'' [] ''PROPOSAL_STATUS_VOTING_PERIOD'' ''2025-01-01T05:00:00Z'',
      exampleRaw ''8'' [] ''PROPOSAL_STATUS_REJECTED'' ''2025-01-01T05:00:00Z'',
      exampleRaw ''9'' ''Upgrade'' ''PROPOSAL_STATUS_VOTING_PERIOD'' ''2025-01-01T05:00:00Z'']"
  let ?none = "[exampleRaw ''8'' [] ''PROPOSAL_STATUS_REJECTED'' ''2025-01-01T05:00:00Z'']"
  have f: "fetched (exampleEnv ?raws) (NewClient exampleNetwork) ?raws"
    and g: "fetched (exampleEnv ?none) (NewClient exampleNetwork) ?none"
    by (simp_all add: fetched_def makeRequest_def exampleEnv_def)
  have m: "map (toProposal (exampleEnv ?raws) (NewClient exampleNetwork))
             (filter (retained (exampleEnv ?raws)) ?raws)
           = [fetchedProposal 7 ''Proposal 7'', fetchedProposal 9 ''Upgrade'']"
    by (simp add: fetch_eval example_defs scan_eval)
  have e: "filter isVoting ?none = []"
    by (simp add: isVoting_def exampleRaw_def)
  have a: "GetVotingProposals (exampleEnv ?raws) (NewClient exampleNetwork)
           = Inr [fetchedProposal 7 ''Proposal 7'', fetchedProposal 9 ''Upgrade'']"
    using voting_filter [OF f] unfolding m by (rule conjunct1)
  have b: "GetVotingProposals (exampleEnv ?none) (NewClient exampleNetwork) = Inr []"
    using voting_filter [OF g] e by blast
  from f a e b show ?thesis by blast
qed

text \<open>
  Claim C9. For every retained proposal, an empty title is replaced by \<open>Proposal\<close>, a
  space and the identifier as it stands in the response, and an empty description by the
  placeholder \<open>No description available\<close>; non-empty titles and descriptions are passed
  through unchanged.
\<close>

theorem title_description_fallback:
  assumes "fetched env c raws"
  shows "\<exists>ps. GetVotingProposals env c = Inr ps
    \<and> map Title ps =
        map (\<lambda>r. if rawTitle r = [] then ''Proposal '' @ rawID r else rawTitle r)
          (filter (retained env) raws)
    \<and> map Description ps =
        map (\<lambda>r. if rawDescription r = [] then ''No description available''
                  else rawDescription r)
          (filter (retained env) raws)"
  using GetVotingProposals_fetched [OF assms] by (simp add: toProposal_def comp_def)

theorem title_description_fallback_witness:
  "fetched
     (exampleEnv [exampleRaw ''7'' [] ''PROPOSAL_STATUS_VOTING_PERIOD'' ''2025-01-01T05:00:00Z'',
                  (exampleRaw ''9'' ''Upgrade'' ''PROPOSAL_STATUS_VOTING_PERIOD'' ''2025-01-01T05:00:00Z'')
                     \<lparr>rawDescription := ''Software upgrade''\<rparr>])
     (NewClient exampleNetwork)
     [exampleRaw ''7'' [] ''PROPOSAL_STATUS_VOTING_PERIOD'' ''2025-01-01T05:00:00Z'',
      (exampleRaw ''9'' ''Upgrade'' ''PROPOSAL_STATUS_VOTING_PERIOD'' ''2025-01-01T05:00:00Z'')
         \<lparr>rawDescription := ''Software upgrade''\<rparr>]
   \<and> (\<exists>ps. GetVotingProposals
     (exampleEnv [exampleRaw ''7'' [] ''PROPOSAL_STATUS_VOTING_PERIOD'' ''2025-01-01T05:00:00Z'',
                  (exampleRaw ''9'' ''Upgrade'' ''PROPOSAL_STATUS_VOTING_PERIOD'' ''2025-01-01T05:00:00Z'')
                     \<lparr>rawDescription := ''Software upgrade''\<rparr>])
     (NewClient exampleNetwork) = Inr ps
       \<and> map Title ps = [''Proposal 7'', ''Upgrade'']
       \<and> map Description ps = [''No description available'', ''Software upgrade''])"
proof -
  let ?raws = "[exampleRaw ''7'' [] ''PROPOSAL_STATUS_VOTING_PERIOD'' ''2025-01-01T05:00:00Z'',
      (exampleRaw ''9'' ''Upgrade'' ''PROPOSAL_STATUS_VOTING_PERIOD'' ''2025-01-01T05:00:00Z'')
         \<lparr>rawDescription := ''Software upgrade''\<rparr>]"
  have f: "fetched (exampleEnv ?raws) (NewClient exampleNetwork) ?raws"
    by (simp add: fetched_def makeRequest_def exampleEnv_def)
  have r: "filter (retained (exampleEnv ?raws)) ?raws = ?raws"
    by (simp add: retained_def isVoting_def parses_def example_defs scan_eval)
  show ?thesis
    using title_description_fallback [OF f] f unfolding r
    by (simp add: exampleRaw_def)
qed

section \<open>The monitoring cycle\<close>







text \<open>
  Within a network the loop goes on to the next proposal whatever \<open>checkProposal\<close>
  returns: a send failure for one proposal does not keep the next from being evaluated.
\<close>

lemma checkEach_continues:
  "checkEach env s (proposal # rest) networkConfig w =
     checkEach env s rest networkConfig (snd (checkProposal env s proposal networkConfig w))"
  by (simp split: prod.splits)

text \<open>
  Within a proposal, an error of the start notification ends \<open>checkProposal\<close> at once,
  whether or not the end alert is due.
\<close>

lemma checkProposal_start_failure:
  assumes "startAlertDue (Alerts (svc_config s)) proposal (timeNow env (clockReads w))"
    and "SendNotification env (notifier s)
           (startMessage proposal networkConfig (timeNow env (clockReads w)))
           (w\<lparr>clockReads := Suc (clockReads w)\<rparr>) = (Some e, w')"
  shows "checkProposal env s proposal networkConfig w =
           (Some (Wrap ''failed to send start notification'' e), w')"
  using assms by (simp add: checkProposal_def time_Now_def)

text \<open>
  Claim C4 says that both alerts of a proposal are attempted even if sending the start
  alert fails. With voting starting in one hour and ending in two, lead times of 24 hours
  and a chat bot that is down, both alerts are due; the start alert is attempted on both
  channels, the function returns the bot's error, and the end alert is attempted on
  neither.
\<close>

theorem end_alert_skipped_after_start_failure:
  "startAlertDue exampleAlerts (exampleProposal (exampleNow + Hour) (exampleNow + 2 * Hour)) exampleNow
   \<and> endAlertDue exampleAlerts (exampleProposal (exampleNow + Hour) (exampleNow + 2 * Hour)) exampleNow
   \<and> checkProposal (failingBotEnv [])
        (exampleService (exampleNotifier (Some (TelegramBot ''token'')) True) [(''babylon'', exampleNetwork)])
        (exampleProposal (exampleNow + Hour) (exampleNow + 2 * Hour)) exampleNetwork exampleWorld
      = (Some (Wrap ''failed to send start notification''
                (Wrap ''telegram'' (Wrap ''failed to send message'' (Error ''bot down'')))),
         \<lparr>deliveries =
            [TelegramSend (TelegramBot ''token'') 42
               (formatTelegramMessage
                  (startMessage (exampleProposal (exampleNow + Hour) (exampleNow + 2 * Hour))
                     exampleNetwork exampleNow)),
             SlackPost ''https://hooks.example/T''
               (formatSlackMessage
                  (startMessage (exampleProposal (exampleNow + Hour) (exampleNow + 2 * Hour))
                     exampleNetwork exampleNow))],
          clockReads = 1\<rparr>)"
  by (simp add: checkProposal_def time_Now_def time_eval send_eval example_defs)

text \<open>With both channels delivering, the same proposal gets both alerts.\<close>

lemma both_alerts_sent_when_sends_succeed:
  "map (\<lambda>d. case d of TelegramSend tbot chat text \<Rightarrow> text | SlackPost url text \<Rightarrow> text)
     (deliveries (snd (checkProposal (exampleEnv [])
        (exampleService (exampleNotifier (Some (TelegramBot ''token'')) False) [(''babylon'', exampleNetwork)])
        (exampleProposal (exampleNow + Hour) (exampleNow + 2 * Hour)) exampleNetwork exampleWorld)))
   = [formatTelegramMessage
        (startMessage (exampleProposal (exampleNow + Hour) (exampleNow + 2 * Hour))
           exampleNetwork exampleNow),
      formatTelegramMessage
        (endMessage (exampleProposal (exampleNow + Hour) (exampleNow + 2 * Hour))
           exampleNetwork exampleNow)]"
  by (simp add: checkProposal_def time_Now_def time_eval send_eval example_defs)

section \<open>Stopping the service\<close>

text \<open>
  Claim C5 as stated (calling stop twice on the same service is safe) fails: the second
  call closes a closed channel and panics.
\<close>

theorem second_Stop_panics:
  "(case Stop (exampleService (exampleNotifier None False) []) of
      Inl p \<Rightarrow> Inl p
    | Inr s \<Rightarrow> Stop s) = Inl (Panic ''close of closed channel'')"
  by (simp add: Stop_def exampleService_def)

text \<open>
  Claim C5, amended. The first stop call on a service is safe: it closes the stop channel,
  the signal the loop waits for, and changes nothing else. Stop is not idempotent: a second
  call on the same service panics.
\<close>

theorem Stop_once:
  "stopChan s = Open \<longrightarrow>
     Stop s = Inr (s\<lparr>stopChan := Closed\<rparr>)
     \<and> Stop (s\<lparr>stopChan := Closed\<rparr>) = Inl (Panic ''close of closed channel'')"
  by (simp add: Stop_def)

theorem Stop_once_witness:
  "stopChan (exampleService (exampleNotifier None False) []) = Open
   \<and> Stop (exampleService (exampleNotifier None False) [])
      = Inr ((exampleService (exampleNotifier None False) [])\<lparr>stopChan := Closed\<rparr>)
   \<and> Stop ((exampleService (exampleNotifier None False) [])\<lparr>stopChan := Closed\<rparr>)
      = Inl (Panic ''close of closed channel'')"
  using Stop_once [of "exampleService (exampleNotifier None False) []"]
  by (simp add: exampleService_def)

text \<open>A service as \<open>NewService\<close> builds it has its stop channel open.\<close>

lemma NewService_open: "NewService env cfg = Inr s \<Longrightarrow> stopChan s = Open"
  by (auto simp: NewService_def split: sum.splits)

end
